theory Spec2Isabelle
  imports Main "HOL-Library.AList" "HOL-Library.Monad_Syntax"
begin

section \<open>The schema graph consumed by the TypeScript generator\<close>

text \<open>
  The development embeds \<^verbatim>\<open>packages/graphqlgen/src/generators/typescript/generator.ts\<close>.
  The generator assembles its output from template literals; the embedding keeps the
  output as a \<open>string\<close> and every template character by character.

  The declarations of \<^verbatim>\<open>source-helper\<close> and \<^verbatim>\<open>types\<close> are imported by the generator and
  are not part of the embedded file.  The records below carry the members the generator
  reads (\<^verbatim>\<open>type.name\<close>, \<^verbatim>\<open>type.type.isObject\<close>, \<^verbatim>\<open>field.arguments\<close>, \<dots>).  Several of the
  source's object types have a member \<^verbatim>\<open>name\<close>, \<^verbatim>\<open>type\<close> or \<^verbatim>\<open>fields\<close>; the record
  fields are prefixed to keep them apart:
  \<^item> \<open>name\<close>, \<open>isInput\<close>, \<dots> of \<open>GraphQLTypeDefinition\<close> are \<^verbatim>\<open>x.type.name\<close>, \<^verbatim>\<open>x.type.isInput\<close>;
  \<^item> \<open>arg_name\<close>, \<open>arg_type\<close> are \<^verbatim>\<open>arg.name\<close>, \<^verbatim>\<open>arg.type\<close>;
  \<^item> \<open>field_name\<close>, \<open>field_type\<close>, \<open>arguments\<close> are \<^verbatim>\<open>field.name\<close>, \<^verbatim>\<open>field.type\<close>,
    \<^verbatim>\<open>field.arguments\<close>;
  \<^item> \<open>obj_name\<close>, \<open>obj_type\<close>, \<open>obj_fields\<close>, \<open>implements\<close> belong to \<^verbatim>\<open>GraphQLTypeObject\<close>;
  \<^item> \<open>iface_name\<close>, \<open>iface_type\<close>, \<open>iface_fields\<close>, \<open>implementors\<close> to
    \<^verbatim>\<open>GraphQLInterfaceObject\<close>;
  \<^item> \<open>un_name\<close>, \<open>un_type\<close>, \<open>un_types\<close> to \<^verbatim>\<open>GraphQLUnionObject\<close> (\<^verbatim>\<open>union.types\<close>).
\<close>

record GraphQLTypeDefinition =
  name :: string
  isScalar :: bool
  isEnum :: bool
  isUnion :: bool
  isInput :: bool
  isObject :: bool
  isInterface :: bool

record GraphQLType = GraphQLTypeDefinition +
  isArray :: bool
  isArrayRequired :: bool
  isRequired :: bool

record GraphQLTypeArgument =
  arg_name :: string
  arg_type :: GraphQLType

record GraphQLTypeField =
  field_name :: string
  field_type :: GraphQLType
  arguments :: "GraphQLTypeArgument list"

text \<open>
  Modelled from the spec: the declaration of \<^verbatim>\<open>GraphQLTypeObject\<close> is absent.  The spec's
  ObjectTypeDef has a name, an ordered sequence of fields, an optional list of the
  interface names it implements (\<^verbatim>\<open>implements\<close>, which the generator tests for
  truthiness: \<open>None\<close> is \<^verbatim>\<open>null\<close>) and a "flag marking it as the root subscription type"
  (\<open>isSubscriptionRoot\<close>).  The list \<^verbatim>\<open>args.types\<close> holds the object types and the input
  types alike; \<^verbatim>\<open>type.type.isObject\<close> and \<^verbatim>\<open>type.type.isInput\<close> tell them apart.
\<close>

record GraphQLTypeObject =
  obj_name :: string
  obj_type :: GraphQLTypeDefinition
  obj_fields :: "GraphQLTypeField list"
  implements :: "string list option"
  isSubscriptionRoot :: bool

record GraphQLInterfaceObject =
  iface_name :: string
  iface_type :: GraphQLTypeDefinition
  iface_fields :: "GraphQLTypeField list"
  implementors :: "GraphQLTypeDefinition list"

record GraphQLUnionObject =
  un_name :: string
  un_type :: GraphQLTypeDefinition
  un_types :: "GraphQLTypeDefinition list"

record GraphQLEnumObject =
  enum_name :: string
  enum_values :: "string list"

text \<open>
  \<^verbatim>\<open>GraphQLTypeObject | GraphQLInterfaceObject\<close>, the owning type of a field, and
  \<^verbatim>\<open>GraphQLInterfaceObject | GraphQLUnionObject\<close>, whose \<^verbatim>\<open>kind\<close> member is the tag.
  \<^verbatim>\<open>arg as GraphQLTypeField\<close> hands an argument to \<^verbatim>\<open>printFieldLikeType\<close> in the place of
  a field: \<open>FieldLike\<close> is what that function receives.
\<close>

datatype OwnerType = ObjectType GraphQLTypeObject | InterfaceType GraphQLInterfaceObject

datatype AbstractType = InterfaceKind GraphQLInterfaceObject | UnionKind GraphQLUnionObject

datatype FieldLike = AsField GraphQLTypeField | AsArgument GraphQLTypeArgument

fun owner_name :: "OwnerType \<Rightarrow> string" where
  "owner_name (ObjectType t) = obj_name t"
| "owner_name (InterfaceType t) = iface_name t"

fun owner_type :: "OwnerType \<Rightarrow> GraphQLTypeDefinition" where
  "owner_type (ObjectType t) = obj_type t"
| "owner_type (InterfaceType t) = iface_type t"

fun owner_fields :: "OwnerType \<Rightarrow> GraphQLTypeField list" where
  "owner_fields (ObjectType t) = obj_fields t"
| "owner_fields (InterfaceType t) = iface_fields t"

text \<open>\<^verbatim>\<open>type.implements\<close>: an interface object has no such member (\<^verbatim>\<open>undefined\<close>, falsy).\<close>

fun owner_implements :: "OwnerType \<Rightarrow> string list option" where
  "owner_implements (ObjectType t) = implements t"
| "owner_implements (InterfaceType t) = None"

subsection \<open>Model binding, context and the arguments of \<^verbatim>\<open>generate\<close>\<close>

text \<open>
  A JavaScript object used as a dictionary is an association list of its own entries in
  the order in which \<^verbatim>\<open>Object.keys\<close> and \<^verbatim>\<open>for \<dots> in\<close> enumerate them: \<open>AList.update\<close> writes a key
  (an existing key keeps its position, a new key goes last) and \<open>map fst\<close> is
  \<^verbatim>\<open>Object.keys\<close>.  The dictionaries of the generator are plain objects (\<^verbatim>\<open>{}\<close>), and no lookup
  in it tests for an own property: \<^verbatim>\<open>m[key]\<close> answers the own entry, else the member that
  \<^verbatim>\<open>Object.prototype\<close> has under that name, else \<^verbatim>\<open>undefined\<close>.  \<open>js_get\<close> is this lookup;
  an inherited member is a function or the prototype object itself, truthy and neither an
  array nor iterable.  The dictionaries built by the imported helpers are taken to be plain
  objects too.  JavaScript enumerates keys that are array indices before all others; only
  the import paths of the header could be such keys, and nothing is stated about the order
  of the import lines.
\<close>

definition objectPrototypeKeys :: "string list" where
  "objectPrototypeKeys =
     [''constructor'', ''__defineGetter__'', ''__defineSetter__'', ''hasOwnProperty'',
      ''__lookupGetter__'', ''__lookupSetter__'', ''isPrototypeOf'', ''propertyIsEnumerable'',
      ''toString'', ''valueOf'', ''__proto__'', ''toLocaleString'']"

datatype 'v Lookup = Own 'v | Inherited | Undefined

definition js_get :: "(string \<times> 'v) list \<Rightarrow> string \<Rightarrow> 'v Lookup" where
  "js_get m key =
     (case map_of m key of
        Some v \<Rightarrow> Own v
      | None \<Rightarrow> (if key \<in> set objectPrototypeKeys then Inherited else Undefined))"

text \<open>
  \<^verbatim>\<open>Object.assign({}, m)\<close> copies the own entries by assignment.  Assigning an array to the
  key \<^verbatim>\<open>__proto__\<close> of a plain object replaces its prototype and creates no entry.
\<close>

definition js_assign :: "(string \<times> 'v) list \<Rightarrow> (string \<times> 'v) list" where
  "js_assign m = filter (\<lambda>(key, v). key \<noteq> ''__proto__'') m"

record TypeDefinition =
  def_kind :: string
  def_name :: string
  def_isEnum :: bool

record Model =
  model_definition :: TypeDefinition
  importPathRelativeToOutput :: string

type_synonym ModelMap = "(string \<times> Model) list"

type_synonym InterfacesMap = "(string \<times> GraphQLTypeDefinition list) list"

type_synonym UnionsMap = "(string \<times> GraphQLTypeDefinition list) list"

type_synonym InputTypesMap = "(string \<times> GraphQLTypeObject) list"

type_synonym TypeToInputTypeAssociation = "(string \<times> string list) list"

record ContextDefinition =
  contextPath :: string
  contextInterfaceName :: string

record GenerateArgs =
  types :: "GraphQLTypeObject list"
  enums :: "GraphQLEnumObject list"
  unions :: "GraphQLUnionObject list"
  interfaces :: "GraphQLInterfaceObject list"
  context_def :: "ContextDefinition option"
  modelMap :: ModelMap
  defaultResolversEnabled :: bool

subsection \<open>What the generator imports\<close>

text \<open>
  The functions of \<^verbatim>\<open>../common\<close> and \<^verbatim>\<open>../../utils\<close> and the constant \<^verbatim>\<open>os.EOL\<close> are used by
  the generator and defined elsewhere.  They are parameters of the embedding, taken as
  total functions: every theorem below holds for each choice of them.  The optional third
  argument of \<^verbatim>\<open>getModelName\<close> (the text for an unbound type) is an \<open>option\<close>; the option
  \<^verbatim>\<open>{ isReturn: true }\<close> of \<^verbatim>\<open>printFieldLikeType\<close> is a \<open>bool\<close>, \<open>False\<close> when it is left out.
  \<open>emptyUnion\<close> is the text \<^verbatim>\<open>union\<close> gives for an empty list of types.
\<close>

record Imports =
  EOL :: string
  upperFirst :: "string \<Rightarrow> string"
  getModelName :: "GraphQLTypeDefinition \<Rightarrow> ModelMap \<Rightarrow> string option \<Rightarrow> string"
  getContextName :: "ContextDefinition option \<Rightarrow> string"
  printFieldLikeType :: "FieldLike \<Rightarrow> ModelMap \<Rightarrow> InterfacesMap \<Rightarrow> UnionsMap \<Rightarrow> bool \<Rightarrow> string"
  renderEnums :: "GenerateArgs \<Rightarrow> string"
  renderDefaultResolvers :: "GraphQLTypeObject \<Rightarrow> GenerateArgs \<Rightarrow> string \<Rightarrow> string"
  groupModelsNameByImportPath :: "Model list \<Rightarrow> (string \<times> string list) list"
  createInterfacesMap :: "GraphQLInterfaceObject list \<Rightarrow> InterfacesMap"
  createUnionsMap :: "GraphQLUnionObject list \<Rightarrow> UnionsMap"
  emptyUnion :: string

section \<open>String helpers\<close>

text \<open>\<^verbatim>\<open>Array.prototype.join\<close> on an array of strings.\<close>

fun join :: "string \<Rightarrow> string list \<Rightarrow> string" where
  "join sep [] = []"
| "join sep [x] = x"
| "join sep (x # y # ys) = x @ sep @ join sep (y # ys)"

text \<open>
  Modelled from the spec: \<^verbatim>\<open>union\<close> of \<^verbatim>\<open>../common\<close> is absent.  The spec writes a union of
  target types as its members separated by a bar (\<^verbatim>\<open>UserModel | unknown\<close>,
  \<^verbatim>\<open>number | undefined\<close>).  It does not say what the union of no types is written as; that
  text is the parameter \<open>emptyUnion\<close>.
\<close>

definition union_str :: "Imports \<Rightarrow> string list \<Rightarrow> string" where
  "union_str I ts = (if ts = [] then emptyUnion I else join '' | '' ts)"

text \<open>
  Modelled from the spec: \<^verbatim>\<open>resolverReturnType\<close> of \<^verbatim>\<open>../common\<close> is absent.  A result in
  return position is "widened to also accept a pending/deferred form": the value directly
  or a deferred computation of it.
\<close>

definition resolverReturnType :: "Imports \<Rightarrow> string \<Rightarrow> string" where
  "resolverReturnType I returnType = union_str I [returnType, ''Promise<'' @ returnType @ ''>'']"

section \<open>The aggregate declaration\<close>

text \<open>
  \<^verbatim>\<open>renderResolvers\<close>, lines 563-575.  \<open>resolversEntries\<close> is the array literal of lines
  566-572, the entries before they are joined.
\<close>

definition resolversEntries :: "GenerateArgs \<Rightarrow> string list" where
  "resolversEntries args =
     map (\<lambda>t. obj_name t @ '': '' @ obj_name t @ ''Resolvers.Type'')
       (filter (\<lambda>obj. isObject (obj_type obj)) (types args))
     @ map (\<lambda>t. iface_name t @ ''?: '' @ iface_name t @ ''Resolvers.Type'') (interfaces args)
     @ map (\<lambda>t. un_name t @ ''?: '' @ un_name t @ ''Resolvers.Type'') (unions args)"

definition renderResolvers :: "Imports \<Rightarrow> GenerateArgs \<Rightarrow> string" where
  "renderResolvers I args =
     ''export interface Resolvers {\<newline>  '' @ join (EOL I) (resolversEntries args) @ ''\<newline>}\<newline>  ''"

section \<open>Formatting\<close>

text \<open>
  \<^verbatim>\<open>format\<close>, lines 32-46.  \<^verbatim>\<open>prettier.format\<close> is an external function that returns the
  formatted text or throws: \<open>Inl e\<close> is the exception \<open>e\<close> it throws.  \<^verbatim>\<open>JSON.stringify\<close> is taken
  as a total function on the exception values.  \<^verbatim>\<open>console.log\<close> appends a line to the
  console, which is passed in and returned.  The options are a dictionary;
  \<^verbatim>\<open>{...options, parser: 'typescript'}\<close> writes the key \<^verbatim>\<open>parser\<close>.
\<close>

type_synonym PrettierOptions = "(string \<times> string) list"

definition format ::
  "(string \<Rightarrow> PrettierOptions \<Rightarrow> 'e + string) \<Rightarrow> ('e \<Rightarrow> string) \<Rightarrow>
   string \<Rightarrow> PrettierOptions \<Rightarrow> string list \<Rightarrow> string \<times> string list" where
  "format prettier_format JSON_stringify code options console =
     (case prettier_format code (AList.update ''parser'' ''typescript'' options) of
        Inr formatted \<Rightarrow> (formatted, console)
      | Inl e \<Rightarrow>
          (code,
           console @
             [''There is a syntax error in generated code, unformatted code printed, error: ''
                @ JSON_stringify e]))"

section \<open>Indexes built by \<^verbatim>\<open>generate\<close>\<close>

text \<open>
  The two constants of \<^verbatim>\<open>generate\<close>, lines 50-57 and 60-79.  \<^verbatim>\<open>reduce\<close> with an object
  spread and one computed key is a left fold of \<open>AList.update\<close>.
  \<^verbatim>\<open>[].concat(...arrays)\<close> flattens one level.
\<close>

definition inputTypesMap_of :: "GenerateArgs \<Rightarrow> InputTypesMap" where
  "inputTypesMap_of args =
     fold (\<lambda>t inputTypes. AList.update (obj_name t) t inputTypes)
       (filter (\<lambda>t. isInput (obj_type t)) (types args)) []"

definition typeToInputTypeAssociation_of :: "GenerateArgs \<Rightarrow> TypeToInputTypeAssociation" where
  "typeToInputTypeAssociation_of args =
     fold (\<lambda>t ts.
         AList.update (obj_name t)
           (concat (map (\<lambda>field.
              map (\<lambda>arg. name (arg_type arg))
                (filter (\<lambda>arg. isInput (arg_type arg)) (arguments field)))
              (obj_fields t)))
           ts)
       (filter (\<lambda>t.
          isObject (obj_type t) \<and>
          length (filter (\<lambda>field.
            length (filter (\<lambda>arg. isInput (arg_type arg)) (arguments field)) > 0)
            (obj_fields t)) > 0)
          (types args))
       []"

section \<open>Header\<close>

text \<open>
  \<^verbatim>\<open>importsToString\<close>, \<^verbatim>\<open>renderImports\<close> and \<^verbatim>\<open>renderHeader\<close>, lines 108-166.
  \<^verbatim>\<open>Object.keys(m).map(k => \<dots> m[k] \<dots>)\<close> runs over the entries of the dictionary in order.
  In \<^verbatim>\<open>modelsByImportPaths[contextPath] || []\<close> an inherited member is truthy and has no
  \<^verbatim>\<open>concat\<close>: the call throws.
\<close>

definition importsToString :: "Imports \<Rightarrow> (string \<times> string list) list \<Rightarrow> string" where
  "importsToString I modelsByImportPaths =
     join (EOL I)
       (map (\<lambda>(importPath, names).
          ''import { '' @ join '', '' names @ '' } from '' @ [CHR 0x27] @ importPath @ [CHR 0x27])
          modelsByImportPaths)"

definition renderImports :: "Imports \<Rightarrow> GenerateArgs \<Rightarrow> string option" where
  "renderImports I args =
     (let modelsToImport =
            map snd
              (filter (\<lambda>(modelName, m).
                 \<not> (def_kind (model_definition m) = ''TypeAliasDefinition'' \<and>
                    def_isEnum (model_definition m)))
                 (modelMap args));
          modelsByImportPaths = groupModelsNameByImportPath I modelsToImport
      in case context_def args of
           Some c \<Rightarrow>
             do {
               importsFromContextPath \<leftarrow>
                 (case js_get modelsByImportPaths (contextPath c) of
                    Own ns \<Rightarrow> Some ns
                  | Undefined \<Rightarrow> Some []
                  | Inherited \<Rightarrow> None);
               Some (importsToString I
                 (js_assign
                    (AList.update (contextPath c)
                       (importsFromContextPath @ [getContextName I (Some c)])
                       modelsByImportPaths)))
             }
         | None \<Rightarrow>
             Some (importsToString I modelsByImportPaths @ EOL I @ ''type ''
               @ getContextName I None @ '' = any''))"

definition renderHeader :: "Imports \<Rightarrow> GenerateArgs \<Rightarrow> bool \<Rightarrow> string option" where
  "renderHeader I args hasPolymorphicObjects =
     (let imports =
            (if hasPolymorphicObjects then [''GraphQLResolveInfo'', ''GraphQLIsTypeOfFn'']
             else [''GraphQLResolveInfo''])
      in do {
           renderedImports \<leftarrow> renderImports I args;
           Some (''\<newline>// Code generated by github.com/prisma/graphqlgen, DO NOT EDIT.\<newline>\<newline>import { ''
                   @ join '', '' imports @ '' } from '' @ [CHR 0x27] @ ''graphql'' @ [CHR 0x27]
                   @ ''\<newline>'' @ renderedImports @ ''\<newline>  '')
         })"

section \<open>Argument records\<close>

text \<open>\<^verbatim>\<open>renderInputArgInterface\<close> and \<^verbatim>\<open>renderInputArgInterfaces\<close>, lines 405-442.\<close>

definition renderInputArgInterface ::
  "Imports \<Rightarrow> GraphQLTypeField \<Rightarrow> ModelMap \<Rightarrow> InterfacesMap \<Rightarrow> UnionsMap \<Rightarrow> string" where
  "renderInputArgInterface I field mm interfacesMap unionsMap =
     (if length (arguments field) = 0 then ''''
      else ''\<newline>  export interface Args'' @ upperFirst I (field_name field) @ '' {\<newline>    ''
             @ join (EOL I)
                 (map (\<lambda>arg. printFieldLikeType I (AsArgument arg) mm interfacesMap unionsMap False)
                    (arguments field))
             @ ''\<newline>  }\<newline>  '')"

definition renderInputArgInterfaces ::
  "Imports \<Rightarrow> OwnerType \<Rightarrow> ModelMap \<Rightarrow> InterfacesMap \<Rightarrow> UnionsMap \<Rightarrow> string" where
  "renderInputArgInterfaces I t mm interfacesMap unionsMap =
     join (EOL I)
       (map (\<lambda>field. renderInputArgInterface I field mm interfacesMap unionsMap)
          (owner_fields t))"

section \<open>Abstract types\<close>

text \<open>
  \<^verbatim>\<open>renderStringConstant\<close>, \<^verbatim>\<open>renderTypeResolveTypeResolver\<close>, \<^verbatim>\<open>renderInterfaceNamespace\<close> and
  \<^verbatim>\<open>renderUnionNamespace\<close>, lines 226-289.  The loop of lines 259-262 pushes one model
  name and one quoted type name per member: two maps over the members.
\<close>

definition renderStringConstant :: "string \<Rightarrow> string" where
  "renderStringConstant x = [CHR 0x22] @ x @ [CHR 0x22]"

definition renderTypeResolveTypeResolver :: "Imports \<Rightarrow> AbstractType \<Rightarrow> GenerateArgs \<Rightarrow> string" where
  "renderTypeResolveTypeResolver I abstractType args =
     (let gqlObjects =
            (case abstractType of
               InterfaceKind i \<Rightarrow> implementors i
             | UnionKind u \<Rightarrow> un_types u);
          modelNames = map (\<lambda>gqlObj. getModelName I gqlObj (modelMap args) None) gqlObjects;
          gqlObjectNameTypes = map (\<lambda>gqlObj. renderStringConstant (name gqlObj)) gqlObjects
      in ''\<newline>  (\<newline>    value: '' @ union_str I modelNames
           @ '',\<newline>    context: '' @ getContextName I (context_def args)
           @ '',\<newline>    info: GraphQLResolveInfo\<newline>  ) => ''
           @ resolverReturnType I (union_str I gqlObjectNameTypes) @ ''\<newline>  '')"

definition renderInterfaceNamespace ::
  "Imports \<Rightarrow> GraphQLInterfaceObject \<Rightarrow> InterfacesMap \<Rightarrow> UnionsMap \<Rightarrow> GenerateArgs \<Rightarrow> string" where
  "renderInterfaceNamespace I graphQLTypeObject interfacesMap unionsMap args =
     ''    export namespace '' @ iface_name graphQLTypeObject @ ''Resolvers {\<newline>      ''
       @ renderInputArgInterfaces I (InterfaceType graphQLTypeObject) (modelMap args)
           interfacesMap unionsMap
       @ ''\<newline>\<newline>      export interface Type {\<newline>        __resolveType: ''
       @ renderTypeResolveTypeResolver I (InterfaceKind graphQLTypeObject) args
       @ ''\<newline>      }\<newline>    }\<newline>  ''"

definition renderUnionNamespace :: "Imports \<Rightarrow> GraphQLUnionObject \<Rightarrow> GenerateArgs \<Rightarrow> string" where
  "renderUnionNamespace I graphQLTypeObject args =
     ''    export namespace '' @ un_name graphQLTypeObject @ ''Resolvers {\<newline>''
       @ ''      export interface Type {\<newline>        __resolveType?: ''
       @ renderTypeResolveTypeResolver I (UnionKind graphQLTypeObject) args
       @ ''\<newline>      }\<newline>    }\<newline>  ''"

section \<open>Field contracts\<close>

text \<open>
  A result of type \<open>string option\<close> is \<open>None\<close> where the source throws a \<^verbatim>\<open>TypeError\<close>: a
  dictionary has no own entry for the key, and the code then calls \<^verbatim>\<open>.map\<close> on what the
  lookup yields, spreads it or reads a member of a member of it.  That is \<^verbatim>\<open>undefined\<close>, or
  a member inherited from \<^verbatim>\<open>Object.prototype\<close>, which has no \<^verbatim>\<open>map\<close> and is not iterable: the
  code throws in both cases, so \<open>map_of\<close> decides these lookups.

  \<^verbatim>\<open>renderTypeResolver\<close>, lines 500-561.
\<close>

definition renderTypeResolver ::
  "Imports \<Rightarrow> GraphQLTypeField \<Rightarrow> OwnerType \<Rightarrow> ModelMap \<Rightarrow> InterfacesMap \<Rightarrow> UnionsMap \<Rightarrow>
   ContextDefinition option \<Rightarrow> string option" where
  "renderTypeResolver I field t mm interfacesMap unionsMap ctx =
     do {
       parent \<leftarrow>
         (if isInterface (owner_type t) then
            (case map_of interfacesMap (owner_name t) of
               None \<Rightarrow> None
             | Some implementingTypes \<Rightarrow>
                 Some (join '' | ''
                   (map (\<lambda>implType. getModelName I implType mm (Some ''undefined''))
                      implementingTypes)))
          else Some (getModelName I (owner_type t) mm (Some ''undefined'')));
       let params =
         ''\<newline>  (\<newline>    parent: '' @ parent @ '',\<newline>    args: ''
           @ (if length (arguments field) > 0 then ''Args'' @ upperFirst I (field_name field)
              else ''{}'')
           @ '',\<newline>    ctx: '' @ getContextName I ctx
           @ '',\<newline>    info: GraphQLResolveInfo,\<newline>  )\<newline>  '';
       let returnType = printFieldLikeType I (AsField field) mm interfacesMap unionsMap True;
       if owner_name t = ''Subscription'' then
         Some (''\<newline>    {\<newline>      subscribe: '' @ params @ '' => ''
                 @ resolverReturnType I (''AsyncIterator<'' @ returnType @ ''>'')
                 @ ''\<newline>      resolve?: '' @ params @ '' => ''
                 @ resolverReturnType I returnType @ ''\<newline>    }\<newline>    '')
       else
         (let func = params @ '' => '' @ resolverReturnType I returnType;
              DelegatedParentResolver =
                ''\<newline>    {\<newline>      fragment: string\<newline>      resolver: '' @ func
                  @ ''\<newline>    }\<newline>  '';
              resolver = union_str I [''('' @ func @ '')'', DelegatedParentResolver]
          in Some resolver)
     }"

text \<open>
  \<^verbatim>\<open>renderIsTypeOfFunctionInterface\<close>, lines 345-380.  The \<^verbatim>\<open>reduce\<close> of lines 358-363
  spreads \<^verbatim>\<open>interfacesMap[interfaceName]\<close> behind the accumulator; the loop of lines
  367-371 runs over the entries of \<^verbatim>\<open>unionsMap\<close> in order and assigns.
\<close>

definition renderIsTypeOfFunctionInterface ::
  "Imports \<Rightarrow> OwnerType \<Rightarrow> ModelMap \<Rightarrow> InterfacesMap \<Rightarrow> UnionsMap \<Rightarrow>
   ContextDefinition option \<Rightarrow> string option" where
  "renderIsTypeOfFunctionInterface I t mm interfacesMap unionsMap ctx =
     do {
       fromInterfaces \<leftarrow>
         (if \<not> isInterface (owner_type t) then
            (case owner_implements t of
               Some interfaceNames \<Rightarrow>
                 fold (\<lambda>interfaceName acc.
                         do {
                           obj \<leftarrow> acc;
                           implementingTypes \<leftarrow> map_of interfacesMap interfaceName;
                           Some (obj @ implementingTypes)
                         })
                   interfaceNames (Some [])
             | None \<Rightarrow> Some [])
          else Some []);
       let possibleTypes =
         fold (\<lambda>(unionName, unionTypes) possibleTypes.
                 if find (\<lambda>unionType. name unionType = owner_name t) unionTypes \<noteq> None
                 then unionTypes else possibleTypes)
           unionsMap fromInterfaces;
       if length possibleTypes = 0 then Some ''''
       else
         Some (''    __isTypeOf?: GraphQLIsTypeOfFn<''
                 @ join '' | ''
                     (map (\<lambda>possibleType. getModelName I possibleType mm None) possibleTypes)
                 @ '', '' @ getContextName I ctx @ ''>;'')
     }"

text \<open>
  The possible types alone: lines 352-371 of \<^verbatim>\<open>renderIsTypeOfFunctionInterface\<close>, the list
  that the member of lines 376-379 is printed from.
\<close>

definition isTypeOfPossibleTypes ::
  "OwnerType \<Rightarrow> InterfacesMap \<Rightarrow> UnionsMap \<Rightarrow> GraphQLTypeDefinition list option" where
  "isTypeOfPossibleTypes t interfacesMap unionsMap =
     do {
       fromInterfaces \<leftarrow>
         (if \<not> isInterface (owner_type t) then
            (case owner_implements t of
               Some interfaceNames \<Rightarrow>
                 fold (\<lambda>interfaceName acc.
                         do {
                           obj \<leftarrow> acc;
                           implementingTypes \<leftarrow> map_of interfacesMap interfaceName;
                           Some (obj @ implementingTypes)
                         })
                   interfaceNames (Some [])
             | None \<Rightarrow> Some [])
          else Some []);
       Some (fold (\<lambda>(unionName, unionTypes) possibleTypes.
                 if find (\<lambda>unionType. name unionType = owner_name t) unionTypes \<noteq> None
                 then unionTypes else possibleTypes)
           unionsMap fromInterfaces)
     }"

section \<open>Input types of an object type\<close>

text \<open>
  Modelled from the spec: \<^verbatim>\<open>getDistinctInputTypes\<close> of \<^verbatim>\<open>../common\<close> is absent.  The spec
  emits "one input-type declaration per entry the Index Builder associated with this
  type", the Index Builder "deduplicating by name", with "direct references only, not
  transitively through nested input fields".  The names come out in the order of their
  first occurrence.  The function walks \<^verbatim>\<open>typeToInputTypeAssociation[type.name]\<close>; where
  that is not a list of names (\<^verbatim>\<open>undefined\<close>, or a member inherited from
  \<^verbatim>\<open>Object.prototype\<close>) the walk throws.
\<close>

definition getDistinctInputTypes ::
  "GraphQLTypeObject \<Rightarrow> TypeToInputTypeAssociation \<Rightarrow> InputTypesMap \<Rightarrow> string list option" where
  "getDistinctInputTypes t typeToInputTypeAssociation inputTypesMap =
     (case js_get typeToInputTypeAssociation (obj_name t) of
        Own inputTypeNames \<Rightarrow>
          Some (fold (\<lambda>typeName seen. if typeName \<in> set seen then seen else seen @ [typeName])
            inputTypeNames [])
      | Inherited \<Rightarrow> None
      | Undefined \<Rightarrow> None)"

text \<open>
  \<^verbatim>\<open>renderInputTypeInterfaces\<close>, lines 382-403.  \<open>inputTypeInterfaces\<close> is the array of lines
  394-401 before \<^verbatim>\<open>.join(os.EOL)\<close>.  The array of printed fields is interpolated into the
  template as it is: JavaScript joins it with commas.  The guard of line 390 is the
  negation of the lookup: a list of names is truthy, and so is an inherited member.
  \<^verbatim>\<open>inputTypesMap[typeAssociation]\<close> throws at \<^verbatim>\<open>.fields.map\<close> when the name has no own
  entry, an inherited member having no \<^verbatim>\<open>fields\<close>.
\<close>

definition inputTypeInterfaces ::
  "Imports \<Rightarrow> GraphQLTypeObject \<Rightarrow> ModelMap \<Rightarrow> InterfacesMap \<Rightarrow> UnionsMap \<Rightarrow>
   TypeToInputTypeAssociation \<Rightarrow> InputTypesMap \<Rightarrow> string list option" where
  "inputTypeInterfaces I t mm interfacesMap unionsMap typeToInputTypeAssociation inputTypesMap =
     do {
       typeAssociations \<leftarrow> getDistinctInputTypes t typeToInputTypeAssociation inputTypesMap;
       those
         (map (\<lambda>typeAssociation.
            (case map_of inputTypesMap typeAssociation of
               None \<Rightarrow> None
             | Some inputType \<Rightarrow>
                 Some (''export interface '' @ obj_name inputType @ '' {\<newline>      ''
                         @ join '',''
                             (map (\<lambda>field.
                                printFieldLikeType I (AsField field) mm interfacesMap unionsMap
                                  False)
                                (obj_fields inputType))
                         @ ''\<newline>    }'')))
            typeAssociations)
     }"

definition renderInputTypeInterfaces ::
  "Imports \<Rightarrow> GraphQLTypeObject \<Rightarrow> ModelMap \<Rightarrow> InterfacesMap \<Rightarrow> UnionsMap \<Rightarrow>
   TypeToInputTypeAssociation \<Rightarrow> InputTypesMap \<Rightarrow> string option" where
  "renderInputTypeInterfaces I t mm interfacesMap unionsMap typeToInputTypeAssociation inputTypesMap =
     (if js_get typeToInputTypeAssociation (obj_name t) = Undefined then Some ''''
      else
        map_option (join (EOL I))
          (inputTypeInterfaces I t mm interfacesMap unionsMap typeToInputTypeAssociation
             inputTypesMap))"

section \<open>Declaration groups\<close>

text \<open>
  \<^verbatim>\<open>renderResolverFunctionInterfaces\<close> and \<^verbatim>\<open>renderResolverTypeInterface\<close>, lines 444-498.
  The last parameter of the latter, \<^verbatim>\<open>interfaceName\<close>, defaults to \<^verbatim>\<open>'Type'\<close>; its one caller
  leaves it out.
\<close>

definition renderResolverFunctionInterfaces ::
  "Imports \<Rightarrow> GraphQLTypeObject \<Rightarrow> ModelMap \<Rightarrow> InterfacesMap \<Rightarrow> UnionsMap \<Rightarrow>
   ContextDefinition option \<Rightarrow> string option" where
  "renderResolverFunctionInterfaces I t mm interfacesMap unionsMap ctx =
     map_option (join (EOL I))
       (those
          (map (\<lambda>field.
             map_option
               (\<lambda>r. ''export type '' @ upperFirst I (field_name field) @ ''Resolver = '' @ r)
               (renderTypeResolver I field (ObjectType t) mm interfacesMap unionsMap ctx))
             (obj_fields t)))"

definition renderResolverTypeInterface ::
  "Imports \<Rightarrow> OwnerType \<Rightarrow> ModelMap \<Rightarrow> InterfacesMap \<Rightarrow> UnionsMap \<Rightarrow>
   ContextDefinition option \<Rightarrow> string \<Rightarrow> string option" where
  "renderResolverTypeInterface I t mm interfacesMap unionsMap ctx interfaceName =
     do {
       members \<leftarrow>
         those
           (map (\<lambda>field.
              map_option (\<lambda>r. field_name field @ '': '' @ r)
                (renderTypeResolver I field t mm interfacesMap unionsMap ctx))
              (owner_fields t));
       isTypeOf \<leftarrow> renderIsTypeOfFunctionInterface I t mm interfacesMap unionsMap ctx;
       Some (''\<newline>  export interface '' @ interfaceName @ '' {\<newline>    ''
               @ join (EOL I) members @ ''\<newline>      '' @ isTypeOf @ ''\<newline>  }\<newline>  '')
     }"

text \<open>\<^verbatim>\<open>renderNamespace\<close>, lines 291-343.\<close>

definition renderNamespace ::
  "Imports \<Rightarrow> GraphQLTypeObject \<Rightarrow> InterfacesMap \<Rightarrow> UnionsMap \<Rightarrow>
   TypeToInputTypeAssociation \<Rightarrow> InputTypesMap \<Rightarrow> GenerateArgs \<Rightarrow> string option" where
  "renderNamespace I graphQLTypeObject interfacesMap unionsMap typeToInputTypeAssociation
       inputTypesMap args =
     do {
       let defaultResolvers =
         (if defaultResolversEnabled args
          then renderDefaultResolvers I graphQLTypeObject args ''defaultResolvers''
          else '''');
       inputTypes \<leftarrow>
         renderInputTypeInterfaces I graphQLTypeObject (modelMap args) interfacesMap unionsMap
           typeToInputTypeAssociation inputTypesMap;
       let inputArgs =
         renderInputArgInterfaces I (ObjectType graphQLTypeObject) (modelMap args)
           interfacesMap unionsMap;
       functionInterfaces \<leftarrow>
         renderResolverFunctionInterfaces I graphQLTypeObject (modelMap args) interfacesMap
           unionsMap (context_def args);
       typeInterface \<leftarrow>
         renderResolverTypeInterface I (ObjectType graphQLTypeObject) (modelMap args)
           interfacesMap unionsMap (context_def args) ''Type'';
       Some (''    export namespace '' @ obj_name graphQLTypeObject @ ''Resolvers {\<newline>\<newline>    ''
               @ defaultResolvers @ ''\<newline>\<newline>    ''
               @ inputTypes @ ''\<newline>\<newline>    ''
               @ inputArgs @ ''\<newline>\<newline>    ''
               @ functionInterfaces @ ''\<newline>\<newline>    ''
               @ typeInterface @ ''\<newline>\<newline>    ''
               @ '''' @ ''\<newline>  }\<newline>  '')
     }"

text \<open>
  \<^verbatim>\<open>renderObjectNamespaces\<close>, \<^verbatim>\<open>renderInterfaceNamespaces\<close>, \<^verbatim>\<open>renderUnionNamespaces\<close> and
  \<^verbatim>\<open>renderNamespaces\<close>, lines 168-224.
\<close>

definition renderObjectNamespaces ::
  "Imports \<Rightarrow> GenerateArgs \<Rightarrow> InterfacesMap \<Rightarrow> UnionsMap \<Rightarrow>
   TypeToInputTypeAssociation \<Rightarrow> InputTypesMap \<Rightarrow> string option" where
  "renderObjectNamespaces I args interfacesMap unionsMap typeToInputTypeAssociation inputTypesMap =
     map_option (join (EOL I))
       (those
          (map (\<lambda>t.
             renderNamespace I t interfacesMap unionsMap typeToInputTypeAssociation
               inputTypesMap args)
             (filter (\<lambda>t. isObject (obj_type t)) (types args))))"

definition renderInterfaceNamespaces ::
  "Imports \<Rightarrow> GenerateArgs \<Rightarrow> InterfacesMap \<Rightarrow> UnionsMap \<Rightarrow> string" where
  "renderInterfaceNamespaces I args interfacesMap unionsMap =
     join (EOL I)
       (map (\<lambda>t. renderInterfaceNamespace I t interfacesMap unionsMap args) (interfaces args))"

definition renderUnionNamespaces :: "Imports \<Rightarrow> GenerateArgs \<Rightarrow> string" where
  "renderUnionNamespaces I args =
     join (EOL I) (map (\<lambda>t. renderUnionNamespace I t args) (unions args))"

definition renderNamespaces ::
  "Imports \<Rightarrow> GenerateArgs \<Rightarrow> InterfacesMap \<Rightarrow> UnionsMap \<Rightarrow>
   TypeToInputTypeAssociation \<Rightarrow> InputTypesMap \<Rightarrow> string option" where
  "renderNamespaces I args interfacesMap unionsMap typeToInputTypeAssociation inputTypesMap =
     do {
       objectNamespaces \<leftarrow>
         renderObjectNamespaces I args interfacesMap unionsMap typeToInputTypeAssociation
           inputTypesMap;
       Some (''    '' @ objectNamespaces @ ''\<newline>\<newline>    ''
               @ renderInterfaceNamespaces I args interfacesMap unionsMap @ ''\<newline>\<newline>    ''
               @ renderUnionNamespaces I args @ ''\<newline>  '')
     }"

section \<open>The generator\<close>

text \<open>\<^verbatim>\<open>generate\<close>, lines 48-102.\<close>

definition generate :: "Imports \<Rightarrow> GenerateArgs \<Rightarrow> string option" where
  "generate I args =
     (let inputTypesMap = inputTypesMap_of args;
          typeToInputTypeAssociation = typeToInputTypeAssociation_of args;
          interfacesMap = createInterfacesMap I (interfaces args);
          unionsMap = createUnionsMap I (unions args);
          hasPolymorphicObjects =
            (length (map fst interfacesMap) > 0 \<or> length (map fst unionsMap) > 0)
      in do {
           header \<leftarrow> renderHeader I args hasPolymorphicObjects;
           namespaces \<leftarrow>
             renderNamespaces I args interfacesMap unionsMap typeToInputTypeAssociation
               inputTypesMap;
           Some (''  '' @ header @ ''\<newline>\<newline>  ''
                   @ renderEnums I args @ ''\<newline>\<newline>  ''
                   @ namespaces @ ''\<newline>\<newline>  ''
                   @ renderResolvers I args @ ''\<newline>\<newline>  '')
         })"

section \<open>The contracts in the words of the specification\<close>

text \<open>
  The shapes the specification names, written out once.  A resolver takes
  \<^verbatim>\<open>(parent, args, ctx, info)\<close>; a deferred result of type \<open>T\<close> is \<^verbatim>\<open>T | Promise<T>\<close>.
\<close>

definition resolverSignature :: "string \<Rightarrow> string \<Rightarrow> string \<Rightarrow> string" where
  "resolverSignature parent args ctx =
     ''\<newline>  (\<newline>    parent: '' @ parent @ '',\<newline>    args: '' @ args @ '',\<newline>    ctx: '' @ ctx
       @ '',\<newline>    info: GraphQLResolveInfo,\<newline>  )\<newline>  ''"

definition deferred :: "string \<Rightarrow> string" where
  "deferred T = T @ '' | Promise<'' @ T @ ''>''"

text \<open>The record with a mandatory \<^verbatim>\<open>subscribe\<close> and an optional \<^verbatim>\<open>resolve\<close>.\<close>

definition subscriptionContract :: "string \<Rightarrow> string \<Rightarrow> string" where
  "subscriptionContract sig result =
     ''\<newline>    {\<newline>      subscribe: '' @ sig @ '' => '' @ deferred (''AsyncIterator<'' @ result @ ''>'')
       @ ''\<newline>      resolve?: '' @ sig @ '' => '' @ deferred result @ ''\<newline>    }\<newline>    ''"

text \<open>The choice between a plain function and the delegated form with a fragment.\<close>

definition functionOrDelegatedContract :: "string \<Rightarrow> string \<Rightarrow> string" where
  "functionOrDelegatedContract sig result =
     ''('' @ sig @ '' => '' @ deferred result @ '')'' @ '' | ''
       @ ''\<newline>    {\<newline>      fragment: string\<newline>      resolver: '' @ sig @ '' => '' @ deferred result
       @ ''\<newline>    }\<newline>  ''"

text \<open>
  The parent type of a field (spec 4.3): for a field of an interface the union of the
  models of its implementors, for a field of an object that object's model or
  \<^verbatim>\<open>undefined\<close>.  It is \<open>None\<close> where \<^verbatim>\<open>interfacesMap\<close> has no entry for the interface.
\<close>

definition parentType :: "Imports \<Rightarrow> OwnerType \<Rightarrow> ModelMap \<Rightarrow> InterfacesMap \<Rightarrow> string option" where
  "parentType I t mm interfacesMap =
     (if isInterface (owner_type t) then
        map_option
          (\<lambda>implementingTypes.
             join '' | '' (map (\<lambda>i. getModelName I i mm (Some ''undefined'')) implementingTypes))
          (map_of interfacesMap (owner_name t))
      else Some (getModelName I (owner_type t) mm (Some ''undefined'')))"

text \<open>The arguments type of a field: the empty record, or the named argument record.\<close>

definition argsRecordName :: "Imports \<Rightarrow> GraphQLTypeField \<Rightarrow> string" where
  "argsRecordName I field = ''Args'' @ upperFirst I (field_name field)"

definition argsType :: "Imports \<Rightarrow> GraphQLTypeField \<Rightarrow> string" where
  "argsType I field = (if arguments field = [] then ''{}'' else argsRecordName I field)"

definition argumentRecord ::
  "Imports \<Rightarrow> GraphQLTypeField \<Rightarrow> ModelMap \<Rightarrow> InterfacesMap \<Rightarrow> UnionsMap \<Rightarrow> string" where
  "argumentRecord I field mm interfacesMap unionsMap =
     ''\<newline>  export interface '' @ argsRecordName I field @ '' {\<newline>    ''
       @ join (EOL I)
           (map (\<lambda>a. printFieldLikeType I (AsArgument a) mm interfacesMap unionsMap False)
              (arguments field))
       @ ''\<newline>  }\<newline>  ''"

text \<open>
  The discriminating resolver of an abstract type (spec 4.4): it takes the value, the
  context and the request info and returns, possibly deferred, one of the discriminants.
\<close>

definition resolveTypeSignature :: "string \<Rightarrow> string \<Rightarrow> string \<Rightarrow> string" where
  "resolveTypeSignature possibleValue ctx possibleDiscriminant =
     ''\<newline>  (\<newline>    value: '' @ possibleValue @ '',\<newline>    context: '' @ ctx
       @ '',\<newline>    info: GraphQLResolveInfo\<newline>  ) => '' @ deferred possibleDiscriminant @ ''\<newline>  ''"

definition possibleValueType :: "Imports \<Rightarrow> ModelMap \<Rightarrow> GraphQLTypeDefinition list \<Rightarrow> string" where
  "possibleValueType I mm members = union_str I (map (\<lambda>m. getModelName I m mm None) members)"

definition possibleDiscriminantType :: "Imports \<Rightarrow> GraphQLTypeDefinition list \<Rightarrow> string" where
  "possibleDiscriminantType I members =
     union_str I (map (\<lambda>m. [CHR 0x22] @ name m @ [CHR 0x22]) members)"

text \<open>The entries of the aggregate declaration: required, and optional.\<close>

definition requiredEntry :: "string \<Rightarrow> string" where
  "requiredEntry n = n @ '': '' @ n @ ''Resolvers.Type''"

definition optionalEntry :: "string \<Rightarrow> string" where
  "optionalEntry n = n @ ''?: '' @ n @ ''Resolvers.Type''"

definition objectTypeNames :: "GenerateArgs \<Rightarrow> string list" where
  "objectTypeNames args = map obj_name (filter (\<lambda>t. isObject (obj_type t)) (types args))"

definition abstractTypeNames :: "GenerateArgs \<Rightarrow> string list" where
  "abstractTypeNames args = map iface_name (interfaces args) @ map un_name (unions args)"



text \<open>
  The unions of \<^verbatim>\<open>unionsMap\<close> that list a type of the given name, in the order of the map,
  and the \<^verbatim>\<open>__isTypeOf\<close> member for a list of possible types.
\<close>

definition matchingUnions :: "UnionsMap \<Rightarrow> string \<Rightarrow> (string \<times> GraphQLTypeDefinition list) list" where
  "matchingUnions unionsMap n =
     filter (\<lambda>(unionName, unionTypes). \<exists>unionType \<in> set unionTypes. name unionType = n) unionsMap"

definition isTypeOfMember ::
  "Imports \<Rightarrow> ModelMap \<Rightarrow> ContextDefinition option \<Rightarrow> GraphQLTypeDefinition list \<Rightarrow> string" where
  "isTypeOfMember I mm ctx possibleTypes =
     ''    __isTypeOf?: GraphQLIsTypeOfFn<''
       @ join '' | '' (map (\<lambda>p. getModelName I p mm None) possibleTypes)
       @ '', '' @ getContextName I ctx @ ''>;''"

text \<open>
  The implementors of the interfaces an object type implements, in the order of its
  \<^verbatim>\<open>implements\<close> list.
\<close>

definition interfaceImplementors :: "InterfacesMap \<Rightarrow> string list \<Rightarrow> GraphQLTypeDefinition list" where
  "interfaceImplementors interfacesMap interfaceNames =
     concat (map (\<lambda>i. case map_of interfacesMap i of Some ts \<Rightarrow> ts | None \<Rightarrow> []) interfaceNames)"


section \<open>A sample schema\<close>

text \<open>
  A sample choice of the imported functions and a small schema, used where a theorem is
  applied to a concrete input.
\<close>

definition exampleImports :: Imports where
  "exampleImports =
     \<lparr> EOL = ''\<newline>'',
       upperFirst =
         (\<lambda>s. case s of
                [] \<Rightarrow> []
              | c # cs \<Rightarrow>
                  (case map_of (zip ''abcdefghijklmnopqrstuvwxyz'' ''ABCDEFGHIJKLMNOPQRSTUVWXYZ'') c of
                     Some C \<Rightarrow> C
                   | None \<Rightarrow> c) # cs),
       getModelName =
         (\<lambda>t mm emptyType.
            case map_of mm (name t) of
              Some m \<Rightarrow> def_name (model_definition m)
            | None \<Rightarrow> (case emptyType of Some e \<Rightarrow> e | None \<Rightarrow> ''{}'')),
       getContextName =
         (\<lambda>c. case c of Some d \<Rightarrow> contextInterfaceName d | None \<Rightarrow> ''Context''),
       printFieldLikeType =
         (\<lambda>f mm interfacesMap unionsMap isReturn.
            case f of
              AsField x \<Rightarrow>
                (if isReturn then name (field_type x)
                 else field_name x @ '': '' @ name (field_type x))
            | AsArgument a \<Rightarrow> arg_name a @ '': '' @ name (arg_type a)),
       renderEnums = (\<lambda>args. ''''),
       renderDefaultResolvers = (\<lambda>t args n. ''''),
       groupModelsNameByImportPath =
         (\<lambda>ms. map (\<lambda>m. (importPathRelativeToOutput m, [def_name (model_definition m)])) ms),
       createInterfacesMap = (\<lambda>is. map (\<lambda>i. (iface_name i, implementors i)) is),
       createUnionsMap = (\<lambda>us. map (\<lambda>u. (un_name u, un_types u)) us),
       emptyUnion = ''unknown'' \<rparr>"

definition typeDef :: "string \<Rightarrow> bool \<Rightarrow> bool \<Rightarrow> bool \<Rightarrow> GraphQLTypeDefinition" where
  "typeDef n object_t input_t interface_t =
     \<lparr> name = n, isScalar = False, isEnum = False, isUnion = False, isInput = input_t,
       isObject = object_t, isInterface = interface_t \<rparr>"

definition objectDef :: "string \<Rightarrow> GraphQLTypeDefinition" where
  "objectDef n = typeDef n True False False"

definition scalarRef :: "string \<Rightarrow> GraphQLType" where
  "scalarRef n =
     \<lparr> name = n, isScalar = True, isEnum = False, isUnion = False, isInput = False,
       isObject = False, isInterface = False, isArray = False, isArrayRequired = False,
       isRequired = False \<rparr>"

definition inputRef :: "string \<Rightarrow> GraphQLType" where
  "inputRef n =
     \<lparr> name = n, isScalar = False, isEnum = False, isUnion = False, isInput = True,
       isObject = False, isInterface = False, isArray = False, isArrayRequired = False,
       isRequired = True \<rparr>"

definition fieldId :: GraphQLTypeField where
  "fieldId = \<lparr> field_name = ''id'', field_type = scalarRef ''ID'', arguments = [] \<rparr>"

definition fieldPosts :: GraphQLTypeField where
  "fieldPosts =
     \<lparr> field_name = ''posts'', field_type = scalarRef ''Post'',
       arguments =
         [\<lparr> arg_name = ''where'', arg_type = inputRef ''PostFilter'' \<rparr>,
          \<lparr> arg_name = ''limit'', arg_type = scalarRef ''Int'' \<rparr>,
          \<lparr> arg_name = ''not'', arg_type = inputRef ''PostFilter'' \<rparr>] \<rparr>"

definition userType :: GraphQLTypeObject where
  "userType =
     \<lparr> obj_name = ''User'', obj_type = objectDef ''User'', obj_fields = [fieldId, fieldPosts],
       implements = Some [''Node''], isSubscriptionRoot = False \<rparr>"

definition postType :: GraphQLTypeObject where
  "postType =
     \<lparr> obj_name = ''Post'', obj_type = objectDef ''Post'', obj_fields = [fieldId],
       implements = Some [''Node''], isSubscriptionRoot = False \<rparr>"

definition postFilterType :: GraphQLTypeObject where
  "postFilterType =
     \<lparr> obj_name = ''PostFilter'', obj_type = typeDef ''PostFilter'' False True False,
       obj_fields = [fieldId], implements = None, isSubscriptionRoot = False \<rparr>"

text \<open>An object type named \<^verbatim>\<open>Subscription\<close> that is not the root subscription type, and the
  root subscription type of a schema that calls it \<^verbatim>\<open>Feed\<close>.\<close>

definition subscriptionNamedType :: GraphQLTypeObject where
  "subscriptionNamedType =
     \<lparr> obj_name = ''Subscription'', obj_type = objectDef ''Subscription'',
       obj_fields = [fieldId], implements = None, isSubscriptionRoot = False \<rparr>"

definition feedRootType :: GraphQLTypeObject where
  "feedRootType =
     \<lparr> obj_name = ''Feed'', obj_type = objectDef ''Feed'', obj_fields = [fieldId],
       implements = None, isSubscriptionRoot = True \<rparr>"

definition nodeInterface :: GraphQLInterfaceObject where
  "nodeInterface =
     \<lparr> iface_name = ''Node'', iface_type = typeDef ''Node'' False False True,
       iface_fields = [fieldId], implementors = [objectDef ''User'', objectDef ''Post''] \<rparr>"

definition subscriptionNamedInterface :: GraphQLInterfaceObject where
  "subscriptionNamedInterface =
     \<lparr> iface_name = ''Subscription'', iface_type = typeDef ''Subscription'' False False True,
       iface_fields = [fieldId], implementors = [objectDef ''User''] \<rparr>"

definition searchResultUnion :: GraphQLUnionObject where
  "searchResultUnion =
     \<lparr> un_name = ''SearchResult'',
       un_type = \<lparr> name = ''SearchResult'', isScalar = False, isEnum = False, isUnion = True,
                   isInput = False, isObject = False, isInterface = False \<rparr>,
       un_types = [objectDef ''User'', objectDef ''Comment''] \<rparr>"

definition exampleModelMap :: ModelMap where
  "exampleModelMap =
     [(''User'', \<lparr> model_definition = \<lparr> def_kind = ''InterfaceDefinition'', def_name = ''UserModel'',
                                        def_isEnum = False \<rparr>,
                  importPathRelativeToOutput = ''./models'' \<rparr>),
      (''Post'', \<lparr> model_definition = \<lparr> def_kind = ''InterfaceDefinition'', def_name = ''PostModel'',
                                        def_isEnum = False \<rparr>,
                  importPathRelativeToOutput = ''./models'' \<rparr>),
      (''Comment'', \<lparr> model_definition = \<lparr> def_kind = ''InterfaceDefinition'',
                                           def_name = ''CommentModel'', def_isEnum = False \<rparr>,
                     importPathRelativeToOutput = ''./models'' \<rparr>)]"

definition exampleArgs :: GenerateArgs where
  "exampleArgs =
     \<lparr> types = [userType, postType, postFilterType], enums = [], unions = [searchResultUnion],
       interfaces = [nodeInterface], context_def = None, modelMap = exampleModelMap,
       defaultResolversEnabled = False \<rparr>"

definition exampleInterfacesMap :: InterfacesMap where
  "exampleInterfacesMap = [(''Node'', [objectDef ''User'', objectDef ''Post''])]"

definition exampleUnionsMap :: UnionsMap where
  "exampleUnionsMap = [(''SearchResult'', [objectDef ''User'', objectDef ''Comment''])]"

definition examplePrettier :: "string \<Rightarrow> PrettierOptions \<Rightarrow> string + string" where
  "examplePrettier code options =
     (if code = ''type A = {'' then Inl ''SyntaxError'' else Inr (code @ ''\<newline>''))"



section \<open>Field contracts: subscription shape and argument records\<close>

lemma resolverReturnType_deferred: "resolverReturnType I T = deferred T"
  by (simp add: resolverReturnType_def union_str_def deferred_def)

lemma union_str_two: "union_str I [a, b] = a @ '' | '' @ b"
  by (simp add: union_str_def)

lemma renderTypeResolver_eq:
  "renderTypeResolver I f t mm im um ctx =
     map_option
       (\<lambda>parent.
          if owner_name t = ''Subscription''
          then subscriptionContract
                 (resolverSignature parent (argsType I f) (getContextName I ctx))
                 (printFieldLikeType I (AsField f) mm im um True)
          else functionOrDelegatedContract
                 (resolverSignature parent (argsType I f) (getContextName I ctx))
                 (printFieldLikeType I (AsField f) mm im um True))
       (parentType I t mm im)"
proof (cases "parentType I t mm im")
  case None
  then show ?thesis
    by (auto simp: renderTypeResolver_def parentType_def split: if_splits option.splits)
next
  case (Some parent)
  then have p: "(if isInterface (owner_type t) then
            (case map_of im (owner_name t) of
               None \<Rightarrow> None
             | Some implementingTypes \<Rightarrow>
                 Some (join '' | ''
                   (map (\<lambda>implType. getModelName I implType mm (Some ''undefined''))
                      implementingTypes)))
          else Some (getModelName I (owner_type t) mm (Some ''undefined''))) = Some parent"
    by (auto simp: parentType_def split: if_splits option.splits)
  have a: "(if length (arguments f) > 0 then ''Args'' @ upperFirst I (field_name f) else ''{}'')
      = argsType I f"
    by (simp add: argsType_def argsRecordName_def)
  show ?thesis
    unfolding renderTypeResolver_def p a Some
    by (simp add: Let_def resolverReturnType_deferred union_str_two subscriptionContract_def
        functionOrDelegatedContract_def resolverSignature_def)
qed

lemma subscription_neq_functionOrDelegated:
  "subscriptionContract sig result \<noteq> functionOrDelegatedContract sig' result'"
  by (simp add: subscriptionContract_def functionOrDelegatedContract_def)

lemma parentType_object:
  "\<not> isInterface (owner_type t) \<Longrightarrow>
     parentType I t mm im = Some (getModelName I (owner_type t) mm (Some ''undefined''))"
  by (simp add: parentType_def)

text \<open>
  Claim C1, as the code has it.  The claim speaks of the designated root subscription
  type; the generator compares the name of the owning type with \<^verbatim>\<open>Subscription\<close> and reads
  nothing else.  For a field whose owning type, object or interface, is named
  \<^verbatim>\<open>Subscription\<close>, \<open>renderTypeResolver\<close> produces the record with the mandatory member
  \<^verbatim>\<open>subscribe\<close>, a function of the signature \<^verbatim>\<open>(parent, args, ctx, info)\<close> returning
  \<^verbatim>\<open>AsyncIterator\<close> of the result type, possibly deferred, and the optional member
  \<^verbatim>\<open>resolve\<close> of the same signature returning the result type.  For a field of an owning
  type of any other name it produces the choice between the plain function and the
  delegated form.  The two shapes are never the same text, and for an owning type that is
  not an interface the function always returns.
\<close>

theorem subscription_contract_by_name:
  "(owner_name t = ''Subscription'' \<longrightarrow>
      renderTypeResolver I f t mm im um ctx =
        map_option
          (\<lambda>parent.
             subscriptionContract
               (resolverSignature parent (argsType I f) (getContextName I ctx))
               (printFieldLikeType I (AsField f) mm im um True))
          (parentType I t mm im))
   \<and> (owner_name t \<noteq> ''Subscription'' \<longrightarrow>
      renderTypeResolver I f t mm im um ctx =
        map_option
          (\<lambda>parent.
             functionOrDelegatedContract
               (resolverSignature parent (argsType I f) (getContextName I ctx))
               (printFieldLikeType I (AsField f) mm im um True))
          (parentType I t mm im))
   \<and> (\<forall>sig r sig' r'. subscriptionContract sig r \<noteq> functionOrDelegatedContract sig' r')
   \<and> (\<not> isInterface (owner_type t) \<longrightarrow> renderTypeResolver I f t mm im um ctx \<noteq> None)"
  by (simp add: renderTypeResolver_eq subscription_neq_functionOrDelegated parentType_object)

text \<open>
  Claim C1, the amended statement at the sample schema: the field \<^verbatim>\<open>id\<close> of the object type
  named \<^verbatim>\<open>Subscription\<close> and the field \<^verbatim>\<open>posts\<close> of \<^verbatim>\<open>User\<close>.
\<close>

theorem subscription_contract_by_name_witness:
  "renderTypeResolver exampleImports fieldId (ObjectType subscriptionNamedType) exampleModelMap
       exampleInterfacesMap exampleUnionsMap None =
     Some (subscriptionContract (resolverSignature ''undefined'' ''{}'' ''Context'') ''ID'')
   \<and> renderTypeResolver exampleImports fieldPosts (ObjectType userType) exampleModelMap
       exampleInterfacesMap exampleUnionsMap None =
     Some (functionOrDelegatedContract (resolverSignature ''UserModel'' ''ArgsPosts'' ''Context'')
       ''Post'')"
proof -
  have n1: "owner_name (ObjectType subscriptionNamedType) = ''Subscription''"
    by (simp add: subscriptionNamedType_def)
  have n2: "owner_name (ObjectType userType) \<noteq> ''Subscription''"
    by (simp add: userType_def)
  have p1: "parentType exampleImports (ObjectType subscriptionNamedType) exampleModelMap
      exampleInterfacesMap = Some ''undefined''"
    by (simp add: parentType_def subscriptionNamedType_def objectDef_def typeDef_def
        exampleImports_def exampleModelMap_def)
  have p2: "parentType exampleImports (ObjectType userType) exampleModelMap
      exampleInterfacesMap = Some ''UserModel''"
    by (simp add: parentType_def userType_def objectDef_def typeDef_def
        exampleImports_def exampleModelMap_def)
  have a1: "argsType exampleImports fieldId = ''{}''"
    by (simp add: argsType_def fieldId_def)
  have a2: "argsType exampleImports fieldPosts = ''ArgsPosts''"
    by (simp add: argsType_def argsRecordName_def fieldPosts_def exampleImports_def)
  have c: "getContextName exampleImports None = ''Context''"
    by (simp add: exampleImports_def)
  have r1: "printFieldLikeType exampleImports (AsField fieldId) exampleModelMap
      exampleInterfacesMap exampleUnionsMap True = ''ID''"
    by (simp add: exampleImports_def fieldId_def scalarRef_def)
  have r2: "printFieldLikeType exampleImports (AsField fieldPosts) exampleModelMap
      exampleInterfacesMap exampleUnionsMap True = ''Post''"
    by (simp add: exampleImports_def fieldPosts_def scalarRef_def)
  from n1 subscription_contract_by_name [of "ObjectType subscriptionNamedType" exampleImports
      fieldId exampleModelMap exampleInterfacesMap exampleUnionsMap None]
  have "renderTypeResolver exampleImports fieldId (ObjectType subscriptionNamedType) exampleModelMap
       exampleInterfacesMap exampleUnionsMap None =
     Some (subscriptionContract (resolverSignature ''undefined'' ''{}'' ''Context'') ''ID'')"
    by (simp only: p1 a1 c r1 option.map simp_thms)
  moreover
  from n2 subscription_contract_by_name [of "ObjectType userType" exampleImports
      fieldPosts exampleModelMap exampleInterfacesMap exampleUnionsMap None]
  have "renderTypeResolver exampleImports fieldPosts (ObjectType userType) exampleModelMap
       exampleInterfacesMap exampleUnionsMap None =
     Some (functionOrDelegatedContract (resolverSignature ''UserModel'' ''ArgsPosts'' ''Context'')
       ''Post'')"
    by (simp only: p2 a2 c r2 option.map simp_thms)
  ultimately show ?thesis by simp
qed

text \<open>
  Claim C1 as stated fails.  \<open>feedRootType\<close> is flagged as the root subscription type and is
  named \<^verbatim>\<open>Feed\<close>: its field gets the choice between plain function and delegated form, which
  differs from the subscription record.  \<open>subscriptionNamedType\<close> is not the root subscription
  type and is named \<^verbatim>\<open>Subscription\<close>: its field gets the subscription record.
\<close>

theorem root_subscription_flag_counterexample:
  "isSubscriptionRoot feedRootType
   \<and> renderTypeResolver exampleImports fieldId (ObjectType feedRootType) exampleModelMap
       exampleInterfacesMap exampleUnionsMap None =
     Some (functionOrDelegatedContract (resolverSignature ''undefined'' ''{}'' ''Context'') ''ID'')
   \<and> functionOrDelegatedContract (resolverSignature ''undefined'' ''{}'' ''Context'') ''ID'' \<noteq>
       subscriptionContract (resolverSignature ''undefined'' ''{}'' ''Context'') ''ID''
   \<and> \<not> isSubscriptionRoot subscriptionNamedType
   \<and> renderTypeResolver exampleImports fieldId (ObjectType subscriptionNamedType) exampleModelMap
       exampleInterfacesMap exampleUnionsMap None =
     Some (subscriptionContract (resolverSignature ''undefined'' ''{}'' ''Context'') ''ID'')"
  by (simp add: renderTypeResolver_eq subscription_neq_functionOrDelegated [symmetric]
      parentType_def argsType_def argsRecordName_def exampleImports_def
      subscriptionNamedType_def feedRootType_def fieldId_def objectDef_def typeDef_def
      scalarRef_def exampleModelMap_def)

text \<open>
  Claim C9.  \<open>renderTypeResolver\<close> throws exactly when the owning type is an interface that
  \<^verbatim>\<open>interfacesMap\<close> does not know.  Whenever it returns, the result is the subscription
  record if and only if the owning type is named \<^verbatim>\<open>Subscription\<close>, and the choice between
  plain function and delegated form if and only if it is not; this holds for object types
  and interfaces alike.  The flag \<open>isSubscriptionRoot\<close> of an object type has no influence
  on the result.
\<close>

theorem subscription_shape_iff_name:
  "(renderTypeResolver I f t mm im um ctx = None \<longleftrightarrow>
      isInterface (owner_type t) \<and> map_of im (owner_name t) = None)
   \<and> (\<forall>s. renderTypeResolver I f t mm im um ctx = Some s \<longrightarrow>
         ((\<exists>sig r. s = subscriptionContract sig r) \<longleftrightarrow> owner_name t = ''Subscription'')
       \<and> ((\<exists>sig r. s = functionOrDelegatedContract sig r) \<longleftrightarrow> owner_name t \<noteq> ''Subscription''))
   \<and> (\<forall>obj b. renderTypeResolver I f (ObjectType (obj\<lparr>isSubscriptionRoot := b\<rparr>)) mm im um ctx =
         renderTypeResolver I f (ObjectType obj) mm im um ctx)"
proof (intro conjI allI impI)
  show "renderTypeResolver I f t mm im um ctx = None \<longleftrightarrow>
      isInterface (owner_type t) \<and> map_of im (owner_name t) = None"
    by (simp add: renderTypeResolver_eq parentType_def)
next
  fix s
  assume s: "renderTypeResolver I f t mm im um ctx = Some s"
  show "(\<exists>sig r. s = subscriptionContract sig r) \<longleftrightarrow> owner_name t = ''Subscription''"
    using s
    by (auto simp: renderTypeResolver_eq subscription_neq_functionOrDelegated
        subscription_neq_functionOrDelegated [symmetric] split: if_splits)
  show "(\<exists>sig r. s = functionOrDelegatedContract sig r) \<longleftrightarrow> owner_name t \<noteq> ''Subscription''"
    using s
    by (auto simp: renderTypeResolver_eq subscription_neq_functionOrDelegated
        subscription_neq_functionOrDelegated [symmetric] split: if_splits)
next
  fix obj :: GraphQLTypeObject and b
  show "renderTypeResolver I f (ObjectType (obj\<lparr>isSubscriptionRoot := b\<rparr>)) mm im um ctx =
         renderTypeResolver I f (ObjectType obj) mm im um ctx"
    by (simp add: renderTypeResolver_def)
qed

text \<open>
  Claim C9 at the sample schema: an interface named \<^verbatim>\<open>Subscription\<close> gets the subscription
  record, the root subscription type named \<^verbatim>\<open>Feed\<close> does not.
\<close>

theorem subscription_shape_iff_name_witness:
  "(\<exists>sig r. renderTypeResolver exampleImports fieldId (InterfaceType subscriptionNamedInterface)
       exampleModelMap [(''Subscription'', [objectDef ''User''])] exampleUnionsMap None =
       Some (subscriptionContract sig r))
   \<and> (\<exists>sig r. renderTypeResolver exampleImports fieldId (ObjectType feedRootType)
       exampleModelMap exampleInterfacesMap exampleUnionsMap None =
       Some (functionOrDelegatedContract sig r))"
proof -
  let ?a = "renderTypeResolver exampleImports fieldId (InterfaceType subscriptionNamedInterface)
       exampleModelMap [(''Subscription'', [objectDef ''User''])] exampleUnionsMap None"
  let ?b = "renderTypeResolver exampleImports fieldId (ObjectType feedRootType)
       exampleModelMap exampleInterfacesMap exampleUnionsMap None"
  note A = subscription_shape_iff_name [of exampleImports fieldId
      "InterfaceType subscriptionNamedInterface" exampleModelMap
      "[(''Subscription'', [objectDef ''User''])]" exampleUnionsMap None]
  note B = subscription_shape_iff_name [of exampleImports fieldId
      "ObjectType feedRootType" exampleModelMap exampleInterfacesMap exampleUnionsMap None]
  have na: "owner_name (InterfaceType subscriptionNamedInterface) = ''Subscription''"
    by (simp add: subscriptionNamedInterface_def)
  have nb: "owner_name (ObjectType feedRootType) \<noteq> ''Subscription''"
    by (simp add: feedRootType_def)
  have "map_of [(''Subscription'', [objectDef ''User''])]
      (owner_name (InterfaceType subscriptionNamedInterface)) \<noteq> None"
    by (simp add: subscriptionNamedInterface_def)
  with A have "?a \<noteq> None" by blast
  then obtain s where s: "?a = Some s" by blast
  with A na have "\<exists>sig r. s = subscriptionContract sig r" by blast
  with s have 1: "\<exists>sig r. ?a = Some (subscriptionContract sig r)" by simp
  have "\<not> isInterface (owner_type (ObjectType feedRootType))"
    by (simp add: feedRootType_def objectDef_def typeDef_def)
  with B have "?b \<noteq> None" by blast
  then obtain s' where s': "?b = Some s'" by blast
  with B nb have "\<exists>sig r. s' = functionOrDelegatedContract sig r" by blast
  with s' have 2: "\<exists>sig r. ?b = Some (functionOrDelegatedContract sig r)" by simp
  from 1 2 show ?thesis by blast
qed

lemma renderInputArgInterface_eq:
  "renderInputArgInterface I f mm im um =
     (if arguments f = [] then [] else argumentRecord I f mm im um)"
  by (simp add: renderInputArgInterface_def argumentRecord_def argsRecordName_def)

lemma argumentRecord_nonempty: "argumentRecord I f mm im um \<noteq> []"
  by (simp add: argumentRecord_def)

text \<open>
  Claim C5.  For a field, \<open>renderInputArgInterface\<close> emits nothing if and only if the field
  has no arguments; otherwise it emits the declaration of the record \<^verbatim>\<open>Args<FieldName>\<close>.
  The argument records of an object or interface type are those of its fields, joined.
  The resolver contract of the field takes \<^verbatim>\<open>{}\<close> as its \<^verbatim>\<open>args\<close> parameter when the field has
  no arguments and the named record otherwise.
\<close>

theorem argument_record_presence:
  "(renderInputArgInterface I f mm im um = [] \<longleftrightarrow> arguments f = [])
   \<and> (arguments f \<noteq> [] \<longrightarrow>
        renderInputArgInterface I f mm im um =
          ''\<newline>  export interface Args'' @ upperFirst I (field_name f) @ '' {\<newline>    ''
            @ join (EOL I)
                (map (\<lambda>a. printFieldLikeType I (AsArgument a) mm im um False) (arguments f))
            @ ''\<newline>  }\<newline>  '')
   \<and> renderInputArgInterfaces I t mm im um =
        join (EOL I)
          (map (\<lambda>field. if arguments field = [] then [] else argumentRecord I field mm im um)
             (owner_fields t))
   \<and> renderTypeResolver I f t mm im um ctx =
        map_option
          (\<lambda>parent.
             (if owner_name t = ''Subscription'' then subscriptionContract
              else functionOrDelegatedContract)
               (resolverSignature parent
                  (if arguments f = [] then ''{}'' else ''Args'' @ upperFirst I (field_name f))
                  (getContextName I ctx))
               (printFieldLikeType I (AsField f) mm im um True))
          (parentType I t mm im)"
proof (intro conjI impI)
  show "renderInputArgInterface I f mm im um = [] \<longleftrightarrow> arguments f = []"
    by (simp add: renderInputArgInterface_eq argumentRecord_nonempty)
  show "renderInputArgInterface I f mm im um =
          ''\<newline>  export interface Args'' @ upperFirst I (field_name f) @ '' {\<newline>    ''
            @ join (EOL I)
                (map (\<lambda>a. printFieldLikeType I (AsArgument a) mm im um False) (arguments f))
            @ ''\<newline>  }\<newline>  ''" if "arguments f \<noteq> []"
    using that by (simp add: renderInputArgInterface_def)
  show "renderInputArgInterfaces I t mm im um =
        join (EOL I)
          (map (\<lambda>field. if arguments field = [] then [] else argumentRecord I field mm im um)
             (owner_fields t))"
    by (simp add: renderInputArgInterfaces_def renderInputArgInterface_eq)
  show "renderTypeResolver I f t mm im um ctx =
        map_option
          (\<lambda>parent.
             (if owner_name t = ''Subscription'' then subscriptionContract
              else functionOrDelegatedContract)
               (resolverSignature parent
                  (if arguments f = [] then ''{}'' else ''Args'' @ upperFirst I (field_name f))
                  (getContextName I ctx))
               (printFieldLikeType I (AsField f) mm im um True))
          (parentType I t mm im)"
    by (cases "parentType I t mm im")
      (simp_all add: renderTypeResolver_eq argsType_def argsRecordName_def)
qed

text \<open>Claim C5 at the fields \<^verbatim>\<open>id\<close> (no arguments) and \<^verbatim>\<open>posts\<close> (three arguments).\<close>

theorem argument_record_presence_witness:
  "renderInputArgInterface exampleImports fieldId exampleModelMap exampleInterfacesMap
       exampleUnionsMap = []
   \<and> renderInputArgInterface exampleImports fieldPosts exampleModelMap exampleInterfacesMap
       exampleUnionsMap =
       ''\<newline>  export interface ArgsPosts {\<newline>    where: PostFilter\<newline>limit: Int\<newline>not: PostFilter\<newline>  }\<newline>  ''"
proof -
  note A = argument_record_presence [of exampleImports fieldId exampleModelMap
      exampleInterfacesMap exampleUnionsMap "ObjectType userType" None]
  note B = argument_record_presence [of exampleImports fieldPosts exampleModelMap
      exampleInterfacesMap exampleUnionsMap "ObjectType userType" None]
  have a: "arguments fieldId = []" by (simp add: fieldId_def)
  have b: "arguments fieldPosts \<noteq> []" by (simp add: fieldPosts_def)
  from A a have 1: "renderInputArgInterface exampleImports fieldId exampleModelMap
      exampleInterfacesMap exampleUnionsMap = []" by blast
  from B b have "renderInputArgInterface exampleImports fieldPosts exampleModelMap
      exampleInterfacesMap exampleUnionsMap =
      ''\<newline>  export interface Args'' @ upperFirst exampleImports (field_name fieldPosts)
        @ '' {\<newline>    ''
        @ join (EOL exampleImports)
            (map (\<lambda>a. printFieldLikeType exampleImports (AsArgument a) exampleModelMap
               exampleInterfacesMap exampleUnionsMap False) (arguments fieldPosts))
        @ ''\<newline>  }\<newline>  ''" by blast
  then have 2: "renderInputArgInterface exampleImports fieldPosts exampleModelMap
      exampleInterfacesMap exampleUnionsMap =
      ''\<newline>  export interface ArgsPosts {\<newline>    where: PostFilter\<newline>limit: Int\<newline>not: PostFilter\<newline>  }\<newline>  ''"
    by (simp add: exampleImports_def fieldPosts_def inputRef_def scalarRef_def)
  from 1 2 show ?thesis by blast
qed

section \<open>Abstract types: the discriminating resolver\<close>

lemma renderTypeResolveTypeResolver_eq:
  "renderTypeResolveTypeResolver I abstractType args =
     resolveTypeSignature
       (possibleValueType I (modelMap args)
          (case abstractType of InterfaceKind i \<Rightarrow> implementors i | UnionKind u \<Rightarrow> un_types u))
       (getContextName I (context_def args))
       (possibleDiscriminantType I
          (case abstractType of InterfaceKind i \<Rightarrow> implementors i | UnionKind u \<Rightarrow> un_types u))"
  by (simp add: renderTypeResolveTypeResolver_def resolveTypeSignature_def possibleValueType_def
      possibleDiscriminantType_def renderStringConstant_def resolverReturnType_deferred Let_def)

text \<open>
  Claim C4.  The declaration group of an interface has the member \<^verbatim>\<open>__resolveType\<close> without
  a question mark, that of a union has \<^verbatim>\<open>__resolveType?\<close>.  In both the member is the
  function that takes the value, of the union of the members' model types, the context and
  the request info, and returns, possibly deferred, the union of the quoted names of the
  members.  For a non-empty list of members the unions are the members separated by bars.
\<close>

theorem resolveType_mandatory_and_optional:
  "renderInterfaceNamespace I i im um args =
     ''    export namespace '' @ iface_name i @ ''Resolvers {\<newline>      ''
       @ renderInputArgInterfaces I (InterfaceType i) (modelMap args) im um
       @ ''\<newline>\<newline>      export interface Type {\<newline>        __resolveType: ''
       @ resolveTypeSignature (possibleValueType I (modelMap args) (implementors i))
           (getContextName I (context_def args)) (possibleDiscriminantType I (implementors i))
       @ ''\<newline>      }\<newline>    }\<newline>  ''
   \<and> renderUnionNamespace I u args =
     ''    export namespace '' @ un_name u @ ''Resolvers {\<newline>      export interface Type {\<newline>''
       @ ''        __resolveType?: ''
       @ resolveTypeSignature (possibleValueType I (modelMap args) (un_types u))
           (getContextName I (context_def args)) (possibleDiscriminantType I (un_types u))
       @ ''\<newline>      }\<newline>    }\<newline>  ''
   \<and> (\<forall>mm members. members \<noteq> [] \<longrightarrow>
         possibleValueType I mm members =
           join '' | '' (map (\<lambda>m. getModelName I m mm None) members)
       \<and> possibleDiscriminantType I members =
           join '' | '' (map (\<lambda>m. [CHR 0x22] @ name m @ [CHR 0x22]) members))"
  by (simp add: renderInterfaceNamespace_def renderUnionNamespace_def
      renderTypeResolveTypeResolver_eq possibleValueType_def possibleDiscriminantType_def
      union_str_def)

text \<open>Claim C4 at the interface \<^verbatim>\<open>Node\<close> and the union \<^verbatim>\<open>SearchResult\<close> of the sample schema.\<close>

theorem resolveType_mandatory_and_optional_witness:
  "possibleValueType exampleImports exampleModelMap (implementors nodeInterface) =
     ''UserModel | PostModel''
   \<and> possibleDiscriminantType exampleImports (un_types searchResultUnion) =
     [CHR 0x22] @ ''User'' @ [CHR 0x22] @ '' | '' @ [CHR 0x22] @ ''Comment'' @ [CHR 0x22]"
proof -
  note A = resolveType_mandatory_and_optional [of exampleImports nodeInterface
      exampleInterfacesMap exampleUnionsMap exampleArgs searchResultUnion]
  have a: "implementors nodeInterface \<noteq> []" by (simp add: nodeInterface_def)
  have b: "un_types searchResultUnion \<noteq> []" by (simp add: searchResultUnion_def)
  from A a have "possibleValueType exampleImports exampleModelMap (implementors nodeInterface) =
      join '' | '' (map (\<lambda>m. getModelName exampleImports m exampleModelMap None)
        (implementors nodeInterface))" by blast
  then have 1: "possibleValueType exampleImports exampleModelMap (implementors nodeInterface) =
     ''UserModel | PostModel''"
    by (simp add: nodeInterface_def exampleImports_def exampleModelMap_def objectDef_def
        typeDef_def)
  from A b have "possibleDiscriminantType exampleImports (un_types searchResultUnion) =
      join '' | '' (map (\<lambda>m. [CHR 0x22] @ name m @ [CHR 0x22]) (un_types searchResultUnion))"
    by blast
  then have 2: "possibleDiscriminantType exampleImports (un_types searchResultUnion) =
     [CHR 0x22] @ ''User'' @ [CHR 0x22] @ '' | '' @ [CHR 0x22] @ ''Comment'' @ [CHR 0x22]"
    by (simp add: searchResultUnion_def objectDef_def typeDef_def)
  from 1 2 show ?thesis by blast
qed

section \<open>Formatting failures\<close>

text \<open>
  Claim C8.  If the formatter throws, \<open>format\<close> returns the text it was given, unchanged,
  and has written one diagnostic line to the console; if the formatter succeeds, \<open>format\<close>
  returns the formatter's output and writes nothing.
\<close>

theorem format_keeps_text_on_failure:
  "(prettier_format code (AList.update ''parser'' ''typescript'' options) = Inl e \<longrightarrow>
      format prettier_format JSON_stringify code options console =
        (code,
         console @
           [''There is a syntax error in generated code, unformatted code printed, error: ''
              @ JSON_stringify e]))
   \<and> (prettier_format code (AList.update ''parser'' ''typescript'' options) = Inr formatted \<longrightarrow>
      format prettier_format JSON_stringify code options console = (formatted, console))"
  by (simp add: format_def)

text \<open>Claim C8 at a formatter that rejects one text and accepts another.\<close>

theorem format_keeps_text_on_failure_witness:
  "fst (format examplePrettier (\<lambda>e. e) ''type A = {'' [] []) = ''type A = {''
   \<and> format examplePrettier (\<lambda>e. e) ''type A = {}'' [] [] = (''type A = {}\<newline>'', [])"
proof -
  have a: "examplePrettier ''type A = {'' (AList.update ''parser'' ''typescript'' []) =
      Inl ''SyntaxError''"
    by (simp add: examplePrettier_def)
  have b: "examplePrettier ''type A = {}'' (AList.update ''parser'' ''typescript'' []) =
      Inr ''type A = {}\<newline>''"
    by (simp add: examplePrettier_def)
  from a format_keeps_text_on_failure [of examplePrettier "''type A = {''" "[]" "''SyntaxError''"
      "\<lambda>e. e" "[]"]
  have 1: "fst (format examplePrettier (\<lambda>e. e) ''type A = {'' [] []) = ''type A = {''"
    by simp
  from b format_keeps_text_on_failure [of examplePrettier "''type A = {}''" "[]" _
      "\<lambda>e. e" "[]" "''type A = {}\<newline>''"]
  have 2: "format examplePrettier (\<lambda>e. e) ''type A = {}'' [] [] = (''type A = {}\<newline>'', [])"
    by simp
  from 1 2 show ?thesis by blast
qed

section \<open>The aggregate declaration, entry by entry\<close>

text \<open>
  An entry determines the name it binds, and a required entry is never an optional one:
  the two differ in length by an odd number.
\<close>

lemma requiredEntry_inj: "requiredEntry a = requiredEntry b \<Longrightarrow> a = b"
proof -
  assume h: "requiredEntry a = requiredEntry b"
  then have "length (requiredEntry a) = length (requiredEntry b)" by simp
  then have "length a = length b" by (simp add: requiredEntry_def)
  with h show "a = b" by (simp add: requiredEntry_def)
qed

lemma optionalEntry_inj: "optionalEntry a = optionalEntry b \<Longrightarrow> a = b"
proof -
  assume h: "optionalEntry a = optionalEntry b"
  then have "length (optionalEntry a) = length (optionalEntry b)" by simp
  then have "length a = length b" by (simp add: optionalEntry_def)
  with h show "a = b" by (simp add: optionalEntry_def)
qed

lemma required_neq_optional: "requiredEntry a \<noteq> optionalEntry b"
proof
  assume "requiredEntry a = optionalEntry b"
  then have "length (requiredEntry a) = length (optionalEntry b)" by simp
  then have "2 * length a + 16 = 2 * length b + 17"
    by (simp add: requiredEntry_def optionalEntry_def)
  then show False by presburger
qed

lemma resolversEntries_eq:
  "resolversEntries args =
     map requiredEntry (objectTypeNames args) @ map optionalEntry (abstractTypeNames args)"
  by (simp add: resolversEntries_def requiredEntry_def optionalEntry_def objectTypeNames_def
      abstractTypeNames_def comp_def)

lemma count_list_map_inj:
  assumes "\<And>a b. f a = f b \<Longrightarrow> a = b"
  shows "count_list (map f xs) (f x) = count_list xs x"
  using assms by (induction xs) auto

lemma count_list_map_other:
  assumes "\<And>a. f a \<noteq> y"
  shows "count_list (map f xs) y = 0"
  using assms by (induction xs) auto

lemma count_list_distinct:
  "distinct xs \<Longrightarrow> count_list xs x = (if x \<in> set xs then 1 else 0)"
  by (induction xs) auto

lemma resolversEntries_count_required:
  "count_list (resolversEntries args) (requiredEntry n) = count_list (objectTypeNames args) n"
  using count_list_map_inj [of requiredEntry "objectTypeNames args" n]
    count_list_map_other [of optionalEntry "requiredEntry n" "abstractTypeNames args"]
  by (simp add: resolversEntries_eq requiredEntry_inj required_neq_optional [symmetric])

lemma resolversEntries_count_optional:
  "count_list (resolversEntries args) (optionalEntry n) = count_list (abstractTypeNames args) n"
  using count_list_map_inj [of optionalEntry "abstractTypeNames args" n]
    count_list_map_other [of requiredEntry "optionalEntry n" "objectTypeNames args"]
  by (simp add: resolversEntries_eq optionalEntry_inj required_neq_optional)

text \<open>
  Claim C3.  In a graph whose object, interface and union types have distinct names, the
  declaration \<^verbatim>\<open>Resolvers\<close> emitted by \<open>renderResolvers\<close> has exactly one required entry and
  no optional entry for each object type, exactly one optional entry and no required entry
  for each interface and each union, each entry binding the name to
  \<^verbatim>\<open><TypeName>Resolvers.Type\<close>, and no other entries.
\<close>

theorem aggregate_resolvers_entries:
  assumes "distinct (objectTypeNames args @ abstractTypeNames args)"
  shows
    "renderResolvers I args =
       ''export interface Resolvers {\<newline>  '' @ join (EOL I) (resolversEntries args) @ ''\<newline>}\<newline>  ''
     \<and> (\<forall>t \<in> set (types args). isObject (obj_type t) \<longrightarrow>
           count_list (resolversEntries args) (requiredEntry (obj_name t)) = 1
         \<and> count_list (resolversEntries args) (optionalEntry (obj_name t)) = 0)
     \<and> (\<forall>t \<in> set (interfaces args).
           count_list (resolversEntries args) (optionalEntry (iface_name t)) = 1
         \<and> count_list (resolversEntries args) (requiredEntry (iface_name t)) = 0)
     \<and> (\<forall>t \<in> set (unions args).
           count_list (resolversEntries args) (optionalEntry (un_name t)) = 1
         \<and> count_list (resolversEntries args) (requiredEntry (un_name t)) = 0)
     \<and> set (resolversEntries args) =
         requiredEntry ` {obj_name t | t. t \<in> set (types args) \<and> isObject (obj_type t)}
         \<union> optionalEntry ` (iface_name ` set (interfaces args) \<union> un_name ` set (unions args))
     \<and> length (resolversEntries args) =
         length (filter (\<lambda>t. isObject (obj_type t)) (types args)) + length (interfaces args)
         + length (unions args)"
proof -
  from assms have d1: "distinct (objectTypeNames args)" and d2: "distinct (abstractTypeNames args)"
    and d3: "set (objectTypeNames args) \<inter> set (abstractTypeNames args) = {}"
    by simp_all
  have objs: "set (objectTypeNames args) =
      {obj_name t | t. t \<in> set (types args) \<and> isObject (obj_type t)}"
    by (auto simp: objectTypeNames_def)
  have abss: "set (abstractTypeNames args) =
      iface_name ` set (interfaces args) \<union> un_name ` set (unions args)"
    by (simp add: abstractTypeNames_def)
  have c1: "count_list (resolversEntries args) (requiredEntry n) =
      (if n \<in> set (objectTypeNames args) then 1 else 0)" for n
    by (simp add: resolversEntries_count_required count_list_distinct [OF d1])
  have c2: "count_list (resolversEntries args) (optionalEntry n) =
      (if n \<in> set (abstractTypeNames args) then 1 else 0)" for n
    by (simp add: resolversEntries_count_optional count_list_distinct [OF d2])
  have r: "renderResolvers I args =
       ''export interface Resolvers {\<newline>  '' @ join (EOL I) (resolversEntries args) @ ''\<newline>}\<newline>  ''"
    by (simp add: renderResolvers_def)
  have o: "\<forall>t \<in> set (types args). isObject (obj_type t) \<longrightarrow>
           count_list (resolversEntries args) (requiredEntry (obj_name t)) = 1
         \<and> count_list (resolversEntries args) (optionalEntry (obj_name t)) = 0"
    using d3 by (auto simp: c1 c2 objs)
  have i: "\<forall>t \<in> set (interfaces args).
           count_list (resolversEntries args) (optionalEntry (iface_name t)) = 1
         \<and> count_list (resolversEntries args) (requiredEntry (iface_name t)) = 0"
    using d3 by (auto simp: c1 c2 abss)
  have u: "\<forall>t \<in> set (unions args).
           count_list (resolversEntries args) (optionalEntry (un_name t)) = 1
         \<and> count_list (resolversEntries args) (requiredEntry (un_name t)) = 0"
    using d3 by (auto simp: c1 c2 abss)
  have s: "set (resolversEntries args) =
         requiredEntry ` {obj_name t | t. t \<in> set (types args) \<and> isObject (obj_type t)}
         \<union> optionalEntry ` (iface_name ` set (interfaces args) \<union> un_name ` set (unions args))"
    by (simp add: resolversEntries_eq objs abss)
  have l: "length (resolversEntries args) =
         length (filter (\<lambda>t. isObject (obj_type t)) (types args)) + length (interfaces args)
         + length (unions args)"
    by (simp add: resolversEntries_def)
  from r o i u s l show ?thesis by blast
qed

text \<open>Claim C3 at the sample schema.\<close>

theorem aggregate_resolvers_entries_witness:
  "resolversEntries exampleArgs =
     [''User: UserResolvers.Type'', ''Post: PostResolvers.Type'', ''Node?: NodeResolvers.Type'',
      ''SearchResult?: SearchResultResolvers.Type'']
   \<and> count_list (resolversEntries exampleArgs) (requiredEntry ''User'') = 1
   \<and> count_list (resolversEntries exampleArgs) (optionalEntry ''Node'') = 1
   \<and> count_list (resolversEntries exampleArgs) (optionalEntry ''SearchResult'') = 1"
proof -
  have d: "distinct (objectTypeNames exampleArgs @ abstractTypeNames exampleArgs)"
    by (simp add: objectTypeNames_def abstractTypeNames_def exampleArgs_def userType_def
        postType_def postFilterType_def nodeInterface_def searchResultUnion_def objectDef_def
        typeDef_def)
  note A = aggregate_resolvers_entries [OF d, of exampleImports]
  have u: "userType \<in> set (types exampleArgs) \<and> isObject (obj_type userType)
      \<and> obj_name userType = ''User''"
    by (simp add: exampleArgs_def userType_def objectDef_def typeDef_def)
  have n: "nodeInterface \<in> set (interfaces exampleArgs) \<and> iface_name nodeInterface = ''Node''"
    by (simp add: exampleArgs_def nodeInterface_def)
  have s: "searchResultUnion \<in> set (unions exampleArgs)
      \<and> un_name searchResultUnion = ''SearchResult''"
    by (simp add: exampleArgs_def searchResultUnion_def)
  have e: "resolversEntries exampleArgs =
     [''User: UserResolvers.Type'', ''Post: PostResolvers.Type'', ''Node?: NodeResolvers.Type'',
      ''SearchResult?: SearchResultResolvers.Type'']"
    by (simp add: resolversEntries_def exampleArgs_def userType_def
        postType_def postFilterType_def nodeInterface_def searchResultUnion_def objectDef_def
        typeDef_def)
  from A u have 1: "count_list (resolversEntries exampleArgs) (requiredEntry ''User'') = 1"
    by metis
  from A n have 2: "count_list (resolversEntries exampleArgs) (optionalEntry ''Node'') = 1"
    by metis
  from A s have 3: "count_list (resolversEntries exampleArgs) (optionalEntry ''SearchResult'') = 1"
    by metis
  from e 1 2 3 show ?thesis by blast
qed

section \<open>The type predicate \<^verbatim>\<open>__isTypeOf\<close>\<close>

lemma union_loop:
  "fold (\<lambda>(unionName, unionTypes) possibleTypes.
           if find (\<lambda>unionType. name unionType = n) unionTypes \<noteq> None
           then unionTypes else possibleTypes) um p0 =
     (if matchingUnions um n = [] then p0 else snd (last (matchingUnions um n)))"
proof (induction um arbitrary: p0)
  case Nil
  then show ?case by (simp add: matchingUnions_def)
next
  case (Cons u um)
  obtain unionName unionTypes where u: "u = (unionName, unionTypes)" by (cases u)
  show ?case
  proof (cases "\<exists>unionType \<in> set unionTypes. name unionType = n")
    case True
    then have f: "find (\<lambda>unionType. name unionType = n) unionTypes \<noteq> None"
      by (auto simp: find_None_iff)
    from True have m: "matchingUnions (u # um) n = u # matchingUnions um n"
      by (simp add: matchingUnions_def u)
    show ?thesis
      using f by (simp del: not_None_eq add: Cons.IH m [unfolded u] u)
  next
    case False
    then have f: "find (\<lambda>unionType. name unionType = n) unionTypes = None"
      by (auto simp: find_None_iff)
    from False have m: "matchingUnions (u # um) n = matchingUnions um n"
      by (simp add: matchingUnions_def u)
    show ?thesis
      using f by (simp del: not_None_eq add: Cons.IH m [unfolded u] u)
  qed
qed

lemma interface_reduce_None:
  "fold (\<lambda>interfaceName acc.
           do {
             obj \<leftarrow> acc;
             implementingTypes \<leftarrow> map_of im interfaceName;
             Some (obj @ implementingTypes)
           }) interfaceNames None = None"
  by (induction interfaceNames) simp_all

lemma interface_reduce:
  "fold (\<lambda>interfaceName acc.
           do {
             obj \<leftarrow> acc;
             implementingTypes \<leftarrow> map_of im interfaceName;
             Some (obj @ implementingTypes)
           }) interfaceNames (Some acc0) =
     (if \<forall>i \<in> set interfaceNames. map_of im i \<noteq> None
      then Some (acc0 @ interfaceImplementors im interfaceNames) else None)"
proof (induction interfaceNames arbitrary: acc0)
  case Nil
  then show ?case by (simp add: interfaceImplementors_def)
next
  case (Cons i interfaceNames)
  show ?case
  proof (cases "map_of im i")
    case None
    then show ?thesis by (simp add: interface_reduce_None)
  next
    case (Some ts)
    then show ?thesis
      by (simp add: Cons.IH interfaceImplementors_def)
  qed
qed

lemma matchingUnions_last:
  assumes "matchingUnions um n \<noteq> []"
  shows "last (matchingUnions um n) \<in> set um"
    and "\<exists>unionType \<in> set (snd (last (matchingUnions um n))). name unionType = n"
proof -
  from assms have "last (matchingUnions um n) \<in> set (matchingUnions um n)" by simp
  then show "last (matchingUnions um n) \<in> set um"
    and "\<exists>unionType \<in> set (snd (last (matchingUnions um n))). name unionType = n"
    by (auto simp: matchingUnions_def)
qed

lemma renderIsTypeOf_object:
  assumes "implements t = Some interfaceNames"
    and "\<forall>i \<in> set interfaceNames. map_of im i \<noteq> None"
  shows "renderIsTypeOfFunctionInterface I (ObjectType t) mm im um ctx =
     (let fromInterfaces =
            (if isInterface (obj_type t) then [] else interfaceImplementors im interfaceNames);
          possibleTypes =
            (if matchingUnions um (obj_name t) = [] then fromInterfaces
             else snd (last (matchingUnions um (obj_name t))))
      in Some (if possibleTypes = [] then [] else isTypeOfMember I mm ctx possibleTypes))"
  unfolding renderIsTypeOfFunctionInterface_def
  apply (simp only: owner_name.simps owner_type.simps owner_implements.simps assms(1)
      option.case interface_reduce union_loop)
  using assms(2) apply (simp add: Let_def isTypeOfMember_def)
  done

lemma renderIsTypeOf_possibleTypes:
  "renderIsTypeOfFunctionInterface I t mm im um ctx =
     map_option
       (\<lambda>possibleTypes. if possibleTypes = [] then [] else isTypeOfMember I mm ctx possibleTypes)
       (isTypeOfPossibleTypes t im um)"
  unfolding renderIsTypeOfFunctionInterface_def isTypeOfPossibleTypes_def isTypeOfMember_def
  by (simp del: not_None_eq add: Let_def split: Option.bind_split)

lemma isTypeOfPossibleTypes_object:
  assumes "implements t = Some interfaceNames"
    and "\<forall>i \<in> set interfaceNames. map_of im i \<noteq> None"
  shows "isTypeOfPossibleTypes (ObjectType t) im um =
     Some (if matchingUnions um (obj_name t) = []
           then (if isInterface (obj_type t) then [] else interfaceImplementors im interfaceNames)
           else snd (last (matchingUnions um (obj_name t))))"
  unfolding isTypeOfPossibleTypes_def
  apply (simp only: owner_name.simps owner_type.simps owner_implements.simps assms(1)
      option.case interface_reduce union_loop)
  using assms(2) apply simp
  done

text \<open>
  Claim C10, as the code has it.  For an object type that implements interfaces, all of
  them known to \<^verbatim>\<open>interfacesMap\<close>, and that some union of \<^verbatim>\<open>unionsMap\<close> lists by name, the
  possible types of the \<^verbatim>\<open>__isTypeOf\<close> member are the members of the last such union of the
  map and nothing else: the implementors of its interfaces are discarded, an implementor
  that is not a member of that union does not appear among the possible types, and the
  result is the same for every \<^verbatim>\<open>interfacesMap\<close> that knows the interfaces.  An implementor
  that is a member of that union, as the type itself is, does appear.
\<close>

theorem isTypeOf_union_replaces_interfaces:
  assumes "implements t = Some interfaceNames"
    and "\<forall>i \<in> set interfaceNames. map_of im i \<noteq> None"
    and "matchingUnions um (obj_name t) \<noteq> []"
  shows "renderIsTypeOfFunctionInterface I (ObjectType t) mm im um ctx =
           Some (isTypeOfMember I mm ctx (snd (last (matchingUnions um (obj_name t)))))
     \<and> last (matchingUnions um (obj_name t)) \<in> set um
     \<and> (\<forall>im'. (\<forall>i \<in> set interfaceNames. map_of im' i \<noteq> None) \<longrightarrow>
           renderIsTypeOfFunctionInterface I (ObjectType t) mm im' um ctx =
           renderIsTypeOfFunctionInterface I (ObjectType t) mm im um ctx)
     \<and> isTypeOfPossibleTypes (ObjectType t) im um =
           Some (snd (last (matchingUnions um (obj_name t))))
     \<and> (\<forall>possibleTypes. isTypeOfPossibleTypes (ObjectType t) im um = Some possibleTypes \<longrightarrow>
           (\<forall>p \<in> set (interfaceImplementors im interfaceNames).
              p \<in> set possibleTypes \<longleftrightarrow> p \<in> set (snd (last (matchingUnions um (obj_name t))))))
     \<and> (\<exists>p \<in> set (snd (last (matchingUnions um (obj_name t)))). name p = obj_name t)"
proof -
  from matchingUnions_last [OF assms(3)]
  have l: "last (matchingUnions um (obj_name t)) \<in> set um"
    and ex: "\<exists>p \<in> set (snd (last (matchingUnions um (obj_name t)))). name p = obj_name t"
    by auto
  from ex have ne: "snd (last (matchingUnions um (obj_name t))) \<noteq> []" by auto
  have r: "renderIsTypeOfFunctionInterface I (ObjectType t) mm im' um ctx =
           Some (isTypeOfMember I mm ctx (snd (last (matchingUnions um (obj_name t)))))"
    if "\<forall>i \<in> set interfaceNames. map_of im' i \<noteq> None" for im'
    using assms(3) ne by (simp add: renderIsTypeOf_object [OF assms(1) that] Let_def)
  have p: "isTypeOfPossibleTypes (ObjectType t) im um =
           Some (snd (last (matchingUnions um (obj_name t))))"
    using assms(3) by (simp add: isTypeOfPossibleTypes_object [OF assms(1,2)])
  from r [OF assms(2)] l r p ex show ?thesis by simp
qed

text \<open>
  Claim C10, the amended statement at the sample schema: \<^verbatim>\<open>User\<close> implements \<^verbatim>\<open>Node\<close> and is a
  member of \<^verbatim>\<open>SearchResult\<close>; \<^verbatim>\<open>Post\<close>, the other implementor of \<^verbatim>\<open>Node\<close>, is not among the
  possible types.
\<close>

theorem isTypeOf_union_replaces_interfaces_witness:
  "renderIsTypeOfFunctionInterface exampleImports (ObjectType userType) exampleModelMap
       exampleInterfacesMap exampleUnionsMap None =
     Some (isTypeOfMember exampleImports exampleModelMap None
       [objectDef ''User'', objectDef ''Comment''])
   \<and> objectDef ''Post'' \<in> set (interfaceImplementors exampleInterfacesMap [''Node''])
   \<and> isTypeOfPossibleTypes (ObjectType userType) exampleInterfacesMap exampleUnionsMap =
       Some [objectDef ''User'', objectDef ''Comment'']
   \<and> objectDef ''Post'' \<notin> set [objectDef ''User'', objectDef ''Comment'']"
proof -
  have a: "implements userType = Some [''Node'']" by (simp add: userType_def)
  have b: "\<forall>i \<in> set [''Node'']. map_of exampleInterfacesMap i \<noteq> None"
    by (simp add: exampleInterfacesMap_def)
  have m: "matchingUnions exampleUnionsMap (obj_name userType) =
      [(''SearchResult'', [objectDef ''User'', objectDef ''Comment''])]"
    by (simp add: matchingUnions_def exampleUnionsMap_def userType_def objectDef_def typeDef_def)
  then have c: "matchingUnions exampleUnionsMap (obj_name userType) \<noteq> []" by simp
  have i: "objectDef ''Post'' \<in> set (interfaceImplementors exampleInterfacesMap [''Node''])"
    by (simp add: interfaceImplementors_def exampleInterfacesMap_def)
  have n: "objectDef ''Post'' \<notin> set [objectDef ''User'', objectDef ''Comment'']"
    by (simp add: objectDef_def typeDef_def)
  from isTypeOf_union_replaces_interfaces [OF a b c, of exampleImports exampleModelMap None]
    i n
  show ?thesis by (simp add: m)
qed

text \<open>
  Claim C10 as stated fails: it says that the implementors of the interfaces of the type do
  not appear in the parameter type.  \<^verbatim>\<open>User\<close> implements \<^verbatim>\<open>Node\<close>, so it is an implementor of
  its own interface, and it is a member of the union \<^verbatim>\<open>SearchResult\<close>: it is among the
  possible types, and its model is in the parameter type.
\<close>

theorem implementor_in_union_counterexample:
  "implements userType = Some [''Node'']
   \<and> objectDef ''User'' \<in> set (interfaceImplementors exampleInterfacesMap [''Node''])
   \<and> isTypeOfPossibleTypes (ObjectType userType) exampleInterfacesMap exampleUnionsMap =
       Some [objectDef ''User'', objectDef ''Comment'']
   \<and> objectDef ''User'' \<in> set [objectDef ''User'', objectDef ''Comment'']
   \<and> getModelName exampleImports (objectDef ''User'') exampleModelMap None = ''UserModel''
   \<and> renderIsTypeOfFunctionInterface exampleImports (ObjectType userType) exampleModelMap
       exampleInterfacesMap exampleUnionsMap None =
     Some ''    __isTypeOf?: GraphQLIsTypeOfFn<UserModel | CommentModel, Context>;''"
  by (simp add: renderIsTypeOfFunctionInterface_def isTypeOfPossibleTypes_def
      interfaceImplementors_def exampleInterfacesMap_def exampleUnionsMap_def exampleModelMap_def
      exampleImports_def userType_def objectDef_def typeDef_def)

text \<open>
  Claim C6 asks for the union of the models of all possible concrete types, those reached
  through the interfaces of the type and those reached through its unions.  In the sample
  schema \<^verbatim>\<open>Node\<close> is implemented by \<^verbatim>\<open>User\<close> and \<^verbatim>\<open>Post\<close>.  For \<^verbatim>\<open>Post\<close>, which is in no union,
  the member names both models.  For \<^verbatim>\<open>User\<close>, which is also a member of the union
  \<^verbatim>\<open>SearchResult\<close> of \<^verbatim>\<open>User\<close> and \<^verbatim>\<open>Comment\<close>, the loop over the unions assigns where the
  reduction over the interfaces appends, and the model of \<^verbatim>\<open>Post\<close> is lost.
\<close>

theorem isTypeOf_drops_interface_implementors:
  "interfaceImplementors exampleInterfacesMap [''Node''] = [objectDef ''User'', objectDef ''Post'']
   \<and> renderIsTypeOfFunctionInterface exampleImports (ObjectType postType) exampleModelMap
       exampleInterfacesMap exampleUnionsMap None =
     Some ''    __isTypeOf?: GraphQLIsTypeOfFn<UserModel | PostModel, Context>;''
   \<and> renderIsTypeOfFunctionInterface exampleImports (ObjectType userType) exampleModelMap
       exampleInterfacesMap exampleUnionsMap None =
     Some ''    __isTypeOf?: GraphQLIsTypeOfFn<UserModel | CommentModel, Context>;''"
  by (simp add: renderIsTypeOfFunctionInterface_def interfaceImplementors_def
      exampleInterfacesMap_def exampleUnionsMap_def exampleModelMap_def exampleImports_def
      userType_def postType_def objectDef_def typeDef_def)

section \<open>Input-type declarations of an object type\<close>


















end
